theory Spec2Isabelle
  imports Main "HOL-Library.Word" "HOL-Library.Finite_Map" "HOL-Library.Multiset"
begin

section \<open>ProxyChainlinkConversionPath: the rate freshness gate\<close>

text \<open>
  The Solidity contract \<^verbatim>\<open>ProxyChainlinkConversionPath\<close> computes on \<^verbatim>\<open>uint256\<close>,
  modelled as 256-bit words. A failed \<^verbatim>\<open>require\<close> reverts the call; the revert is
  the left summand of the result and carries the reason string.

  The contract does its arithmetic through OpenZeppelin's \<^verbatim>\<open>SafeMath\<close>
  (\<^verbatim>\<open>using SafeMath for uint256\<close>): \<^verbatim>\<open>sub\<close> requires \<^verbatim>\<open>b <= a\<close>, \<^verbatim>\<open>mul\<close> returns 0
  for \<^verbatim>\<open>a == 0\<close> and otherwise requires \<^verbatim>\<open>(a * b) / a == b\<close>, and \<^verbatim>\<open>div\<close> requires
  \<^verbatim>\<open>b > 0\<close>.
\<close>

type_synonym uint256 = "256 word"

datatype revert = Revert string

definition safe_sub :: "uint256 \<Rightarrow> uint256 \<Rightarrow> revert + uint256" where
  "safe_sub a b =
     (if b \<le> a then Inr (a - b) else Inl (Revert ''SafeMath: subtraction overflow''))"

definition safe_mul :: "uint256 \<Rightarrow> uint256 \<Rightarrow> revert + uint256" where
  "safe_mul a b =
     (if a = 0 then Inr 0
      else if (a * b) div a = b then Inr (a * b)
      else Inl (Revert ''SafeMath: multiplication overflow''))"

definition safe_div :: "uint256 \<Rightarrow> uint256 \<Rightarrow> revert + uint256" where
  "safe_div a b =
     (if 0 < b then Inr (a div b) else Inl (Revert ''SafeMath: division by zero''))"

text \<open>\<^verbatim>\<open>uint256 public maxTimestampDeltaAcceptable = 600;\<close> No function of the contract
  assigns it.\<close>

definition maxTimestampDeltaAcceptable :: uint256 where
  "maxTimestampDeltaAcceptable = 600"

text \<open>\<^verbatim>\<open>_requestAmount.mul(rate).div(decimals)\<close>\<close>

definition mul_div :: "uint256 \<Rightarrow> uint256 \<Rightarrow> uint256 \<Rightarrow> revert + uint256" where
  "mul_div amount rate decimals =
     (case safe_mul amount rate of
        Inl e \<Rightarrow> Inl e
      | Inr p \<Rightarrow> safe_div p decimals)"

text \<open>
  \<^verbatim>\<open>getConversions(_path, _requestAmount, _feesRequestAmount)\<close>. The call
  \<^verbatim>\<open>chainlinkConversionPath.getRate(_path)\<close> goes to another contract: its outcome
  (a revert, or the triple \<^verbatim>\<open>(rate, oldestTimestampRate, decimals)\<close>) is the argument
  \<open>getRate\<close>; \<open>block_timestamp\<close> is \<^verbatim>\<open>block.timestamp\<close>.
\<close>

definition getConversions ::
  "uint256 \<Rightarrow> revert + (uint256 \<times> uint256 \<times> uint256) \<Rightarrow> uint256 \<Rightarrow> uint256
     \<Rightarrow> revert + (uint256 \<times> uint256)" where
  "getConversions block_timestamp getRate requestAmount feesRequestAmount =
     (case getRate of
        Inl e \<Rightarrow> Inl e
      | Inr (rate, oldestTimestampRate, decimals) \<Rightarrow>
          (case safe_sub block_timestamp oldestTimestampRate of
             Inl e \<Rightarrow> Inl e
           | Inr delta \<Rightarrow>
               if \<not> delta \<le> maxTimestampDeltaAcceptable
               then Inl (Revert ''aggregator rate is outdated'')
               else
                 (case mul_div requestAmount rate decimals of
                    Inl e \<Rightarrow> Inl e
                  | Inr amountToPay \<Rightarrow>
                      (case mul_div feesRequestAmount rate decimals of
                         Inl e \<Rightarrow> Inl e
                       | Inr amountToPayInFees \<Rightarrow> Inr (amountToPay, amountToPayInFees)))))"


section \<open>Request data shared by the extension and the balance code\<close>

text \<open>
  \<^verbatim>\<open>RequestLogicTypes.CURRENCY\<close> is the enum of the currency types. The table of supported
  currencies is typed \<^verbatim>\<open>Record<RequestLogicTypes.CURRENCY, string[]>\<close> and holds exactly
  the four keys below for each network, so these four are the members of the enum.

  An extension action carries its action name as a string. The four names the code compares
  with are the constructors below; any other string is \<open>OtherAction\<close>.
\<close>

datatype CURRENCY = ISO4217 | ERC20 | ETH | BTC

datatype ACTION = CREATE | ADD_PAYMENT_ADDRESS | ADD_REFUND_ADDRESS | ADD_FEE | OtherAction string

text \<open>\<^verbatim>\<open>ICurrency = { type, value, network? }\<close>\<close>

record ICurrency =
  currency_type :: CURRENCY
  currency_value :: string
  currency_network :: "string option"

text \<open>
  The keyed values the payment-network code reads and writes: the parameters of an
  action, the parameters of an extension event and the \<^verbatim>\<open>values\<close> of an extension
  state. Every key is optional (\<^verbatim>\<open>undefined\<close> is \<open>None\<close>).
\<close>

record IParameters =
  feeAddress :: "string option"
  feeAmount :: "string option"
  paymentAddress :: "string option"
  refundAddress :: "string option"
  salt :: "string option"
  network :: "string option"
  acceptedTokens :: "string list option"
  maxRateTimespan :: "nat option"

text \<open>\<^verbatim>\<open>ExtensionTypes.IAction = { action, id, parameters }\<close>, with its parameters object
  present.\<close>

record IAction =
  action :: ACTION
  action_id :: string
  parameters :: IParameters

record IExtensionEvent =
  event_name :: string
  event_parameters :: IParameters
  event_timestamp :: nat

text \<open>\<^verbatim>\<open>ExtensionTypes.IState = { id, type, version, values, events }\<close>\<close>

record IState =
  state_id :: string
  state_type :: string
  state_version :: string
  state_values :: IParameters
  state_events :: "IExtensionEvent list"

text \<open>\<^verbatim>\<open>RequestLogicTypes.IExtensionStates\<close>: extension id to extension state.\<close>

type_synonym IExtensionStates = "string \<rightharpoonup> IState"

text \<open>\<^verbatim>\<open>RequestLogicTypes.IRequest\<close>, with the two fields the code below reads.\<close>

record IRequest =
  currency :: ICurrency
  extensions :: IExtensionStates

record IIdentity =
  identity_type :: string
  identity_value :: string

text \<open>
  The errors thrown, one constructor for each \<^verbatim>\<open>throw\<close> of the source:
  \<^item> \<open>AcceptedTokensRequired\<close>: \<^verbatim>\<open>acceptedTokens is required\<close>
  \<^item> \<open>AcceptedTokensInvalid\<close>: \<^verbatim>\<open>acceptedTokens must contains only valid ethereum addresses\<close>
  \<^item> \<open>NetworkRequired\<close>: \<^verbatim>\<open>network is required\<close>
  \<^item> \<open>NetworkNotSupported n\<close>: \<^verbatim>\<open>network n not supported\<close>
  \<^item> \<open>TokenNotSupported a n\<close>: \<^verbatim>\<open>acceptedTokens must contain only supported token addresses (ERC20 only). a is not supported for n.\<close>
  \<^item> \<open>ExtensionAlreadyCreated\<close>: \<^verbatim>\<open>This extension has already been created\<close>
  \<^item> \<open>ExtensionNotCreated\<close>: \<^verbatim>\<open>The extension should be created before receiving any other action\<close>
  \<^item> \<open>UnknownAction a\<close>: \<^verbatim>\<open>Unknown action: a\<close>
  \<^item> \<open>AcceptedTokensRequiredNotEmpty\<close>: \<^verbatim>\<open>acceptedTokens is required and cannot be empty\<close>
  \<^item> \<open>PnNetworkNotSupported n\<close>: \<^verbatim>\<open>The network (n) is not supported for this payment network.\<close>
  \<^item> \<open>CurrencyTypeNotSupported t\<close>: \<^verbatim>\<open>The currency type (t) of the request is not supported for this payment network.\<close>
  \<^item> \<open>CurrencyNotSupported v\<close>: \<^verbatim>\<open>The currency (v) of the request is not supported for this payment network.\<close>
  \<^item> \<open>PaymentNetworkNotSupported n\<close>: \<^verbatim>\<open>Payment network n not supported by ERC20 payment detection. Supported networks: mainnet, rinkeby, private\<close>
  \<^item> \<open>TypeError\<close>: the runtime's error on reading a property of \<^verbatim>\<open>undefined\<close>
  \<^item> \<open>OtherError m\<close>: an error thrown by code outside the files modelled here
\<close>

datatype error =
    AcceptedTokensRequired
  | AcceptedTokensInvalid
  | NetworkRequired
  | NetworkNotSupported string
  | TokenNotSupported string string
  | ExtensionAlreadyCreated
  | ExtensionNotCreated
  | UnknownAction ACTION
  | AcceptedTokensRequiredNotEmpty
  | PnNetworkNotSupported string
  | CurrencyTypeNotSupported CURRENCY
  | CurrencyNotSupported string
  | PaymentNetworkNotSupported string
  | TypeError
  | OtherError string

subsection \<open>JavaScript strings and truthiness\<close>

text \<open>
  \<^verbatim>\<open>String.prototype.toLowerCase\<close> on the ASCII letters; every other character is kept
  (the strings here are network names, currency codes and hexadecimal addresses).
\<close>

definition toLowerCase_char :: "char \<Rightarrow> char" where
  "toLowerCase_char c =
     (case map_of (zip ''ABCDEFGHIJKLMNOPQRSTUVWXYZ'' ''abcdefghijklmnopqrstuvwxyz'') c of
        Some l \<Rightarrow> l
      | None \<Rightarrow> c)"

definition toLowerCase :: "string \<Rightarrow> string" where
  "toLowerCase s = map toLowerCase_char s"

text \<open>An optional string is falsy when it is \<^verbatim>\<open>undefined\<close> or empty.\<close>

definition truthy :: "string option \<Rightarrow> bool" where
  "truthy s = (case s of None \<Rightarrow> False | Some v \<Rightarrow> v \<noteq> [])"

text \<open>\<^verbatim>\<open>s || d\<close> on an optional string.\<close>

definition or_default :: "string option \<Rightarrow> string \<Rightarrow> string" where
  "or_default s d = (case s of None \<Rightarrow> d | Some v \<Rightarrow> if v = [] then d else v)"

subsection \<open>Reading a property of a plain object\<close>

text \<open>
  The objects the extension code indexes with a string it is given (the table of supported
  currencies, the extensions of the request, the copied extension states) are plain
  objects: an object literal or the value of \<^verbatim>\<open>JSON.parse\<close>. Reading \<^verbatim>\<open>obj[key]\<close> finds
  the object's own property of that name; when it has none, the read goes on to
  \<^verbatim>\<open>Object.prototype\<close> and finds the member of that name there; otherwise it gives
  \<^verbatim>\<open>undefined\<close>. The members of \<^verbatim>\<open>Object.prototype\<close> are the twelve names below. Eleven
  are functions and \<^verbatim>\<open>__proto__\<close> reads as \<^verbatim>\<open>Object.prototype\<close> itself, so each of them is
  truthy, none of them has a method \<^verbatim>\<open>includes\<close>, and none of them has a property named
  by a member of the enum \<^verbatim>\<open>CURRENCY\<close>.

  An object is modelled by the map of its own properties, and a read by \<open>get_property\<close>.
\<close>

definition Object_prototype :: "string list" where
  "Object_prototype =
     [''constructor'', ''__defineGetter__'', ''__defineSetter__'', ''hasOwnProperty'',
      ''__lookupGetter__'', ''__lookupSetter__'', ''isPrototypeOf'', ''propertyIsEnumerable'',
      ''toString'', ''valueOf'', ''__proto__'', ''toLocaleString'']"

datatype 'a property = Own 'a | Inherited string | Undefined

definition get_property :: "(string \<rightharpoonup> 'a) \<Rightarrow> string \<Rightarrow> 'a property" where
  "get_property obj k =
     (case obj k of
        Some v \<Rightarrow> Own v
      | None \<Rightarrow> if k \<in> set Object_prototype then Inherited k else Undefined)"

section \<open>AnyToErc20ProxyPaymentNetwork\<close>

definition DEFAULT_NETWORK :: string where
  "DEFAULT_NETWORK = ''mainnet''"

text \<open>
  The table \<^verbatim>\<open>supportedCurrencies\<close>, network to currency type to the supported values: the
  own properties of the object literal. The code reads it as \<^verbatim>\<open>supportedCurrencies[network]\<close>,
  which is \<open>get_property supportedCurrencies network\<close>.
\<close>

definition supportedCurrencies :: "string \<rightharpoonup> (CURRENCY \<rightharpoonup> string list)" where
  "supportedCurrencies = map_of
     [(''private'', map_of
         [(ISO4217, [''USD'', ''EUR'']),
          (ERC20, [''0x38cf23c52bb4b13f051aec09580a2de845a7fa35'']),
          (ETH, [''ETH'']),
          (BTC, [])]),
      (''rinkeby'', map_of
         [(ISO4217, [''EUR'', ''GBP'', ''USD'']),
          (ERC20, [''0xfab46e002bbf0b4509813474841e0716e6730136'']),
          (ETH, [''ETH'']),
          (BTC, [])]),
      (''mainnet'', map_of
         [(ISO4217, [''AUD'', ''CAD'', ''CHF'', ''EUR'', ''GBP'', ''SGD'', ''USD'']),
          (ERC20,
            [''0x1f573d6fb3f13d689ff844b4ce37794d79a7ff1c'',
             ''0x3845badade8e6dff049820680d1f14bd3903a5d0'',
             ''0x4e15361fd6b4bb609fa63c81a2be19d873717870'',
             ''0x6b175474e89094c44da98b954eedeac495271d0f'',
             ''0x7fc66500c84a76ad7e9c93437bfc5ac33e2ddae9'',
             ''0x8290333cef9e6d528dd5618fb97a76f268f3edd4'',
             ''0x967da4048cd07ab37855c090aaf366e4ce1b9f48'',
             ''0x9f8f72aa9304c8b593d555f12ef6589cc3a579a2'',
             ''0xa0b86991c6218b36c1d19d4a2e9eb0ce3606eb48'',
             ''0xa117000000f279d81a1d3cc75430faa017fa5a2e'',
             ''0xc944e90c64b2c07662a292be6244bdf05cda44a7'',
             ''0xdac17f958d2ee523a2206206994597c13d831ec7'']),
          (ETH, [''ETH'']),
          (BTC, [])])]"

text \<open>
  The class extends \<^verbatim>\<open>Erc20FeeProxyPaymentNetwork\<close> and calls \<^verbatim>\<open>ReferenceBased\<close>; neither
  file is among the sources. What the class calls of them is a parameter of the model:
  \<^verbatim>\<open>this.isValidAddress\<close>, \<^verbatim>\<open>super.createCreationAction\<close>, \<^verbatim>\<open>super.applyCreation\<close>,
  \<^verbatim>\<open>ReferenceBased.applyAddPaymentAddress\<close>, \<^verbatim>\<open>ReferenceBased.applyAddRefundAddress\<close> and
  \<^verbatim>\<open>this.applyAddFee\<close>. The three handlers receive what reading the id in the copied states
  gives: the state stored there, a member of \<^verbatim>\<open>Object.prototype\<close>, or \<^verbatim>\<open>undefined\<close>.
\<close>

record deps =
  isValidAddress :: "string \<Rightarrow> bool"
  super_createCreationAction :: "IParameters \<Rightarrow> error + IAction"
  super_applyCreation :: "IAction \<Rightarrow> nat \<Rightarrow> error + IState"
  applyAddPaymentAddress ::
    "(string \<Rightarrow> bool) \<Rightarrow> IState property \<Rightarrow> IAction \<Rightarrow> IRequest \<Rightarrow> IIdentity \<Rightarrow> nat
       \<Rightarrow> error + IState"
  applyAddRefundAddress ::
    "(string \<Rightarrow> bool) \<Rightarrow> IState property \<Rightarrow> IAction \<Rightarrow> IRequest \<Rightarrow> IIdentity \<Rightarrow> nat
       \<Rightarrow> error + IState"
  applyAddFee ::
    "IState property \<Rightarrow> IAction \<Rightarrow> IRequest \<Rightarrow> IIdentity \<Rightarrow> nat \<Rightarrow> error + IState"

text \<open>
  Stand-ins for these collaborators, to run the model on concrete inputs: an address is
  valid when it is \<^verbatim>\<open>0x\<close> and forty more characters, the base class builds the action and
  the state from the parameters it is given,
  and a handler stores the address or the fee of the action in the state it is given, or
  fails with a \<open>TypeError\<close> when it is given no state.
\<close>

definition example_deps :: deps where
  "example_deps =
     \<lparr> isValidAddress = (\<lambda>address. length address = 42 \<and> take 2 address = ''0x''),
       super_createCreationAction =
         (\<lambda>ps. Inr \<lparr> action = CREATE, action_id = ''pn-any-to-erc20-proxy'', parameters = ps \<rparr>),
       super_applyCreation =
         (\<lambda>a t. Inr \<lparr> state_id = action_id a, state_type = ''payment-network'',
                      state_version = ''0.1.0'', state_values = parameters a,
                      state_events = [] \<rparr>),
       applyAddPaymentAddress =
         (\<lambda>valid st a r signer t.
            case st of
              Inherited k \<Rightarrow> Inl TypeError
            | Undefined \<Rightarrow> Inl TypeError
            | Own s \<Rightarrow>
                Inr (s\<lparr> state_values :=
                         (state_values s)\<lparr> paymentAddress := paymentAddress (parameters a) \<rparr> \<rparr>)),
       applyAddRefundAddress =
         (\<lambda>valid st a r signer t.
            case st of
              Inherited k \<Rightarrow> Inl TypeError
            | Undefined \<Rightarrow> Inl TypeError
            | Own s \<Rightarrow>
                Inr (s\<lparr> state_values :=
                         (state_values s)\<lparr> refundAddress := refundAddress (parameters a) \<rparr> \<rparr>)),
       applyAddFee =
         (\<lambda>st a r signer t.
            case st of
              Inherited k \<Rightarrow> Inl TypeError
            | Undefined \<Rightarrow> Inl TypeError
            | Own s \<Rightarrow>
                Inr (s\<lparr> state_values :=
                         (state_values s)\<lparr> feeAddress := feeAddress (parameters a),
                                            feeAmount := feeAmount (parameters a) \<rparr> \<rparr>)) \<rparr>"

text \<open>
  Concrete inputs: creation parameters that accept DAI on mainnet (the address in its
  checksum spelling), an extension state, an action of a given name, a request in a given
  currency with given extension states, and a signer.
\<close>

definition example_parameters :: IParameters where
  "example_parameters =
     \<lparr> feeAddress = None, feeAmount = None, paymentAddress = None, refundAddress = None,
       salt = Some ''ea3bc7caf64110ca'', network = Some ''mainnet'',
       acceptedTokens = Some [''0x6B175474E89094C44Da98b954EedeAC495271d0F''],
       maxRateTimespan = None \<rparr>"

definition example_state :: IState where
  "example_state =
     \<lparr> state_id = ''pn-any-to-erc20-proxy'', state_type = ''payment-network'',
       state_version = ''0.1.0'', state_values = example_parameters, state_events = [] \<rparr>"

definition example_action :: "ACTION \<Rightarrow> IAction" where
  "example_action a =
     \<lparr> action = a, action_id = ''pn-any-to-erc20-proxy'', parameters = example_parameters \<rparr>"

definition example_request :: "CURRENCY \<Rightarrow> string \<Rightarrow> IExtensionStates \<Rightarrow> IRequest" where
  "example_request t v es =
     \<lparr> currency = \<lparr> currency_type = t, currency_value = v, currency_network = None \<rparr>,
       extensions = es \<rparr>"

definition example_signer :: IIdentity where
  "example_signer =
     \<lparr> identity_type = ''ethereumAddress'',
       identity_value = ''0x627306090abab3a6e1400e9345bc60c78a8bef57'' \<rparr>"

text \<open>
  \<^verbatim>\<open>createCreationAction(creationParameters)\<close>. The \<^verbatim>\<open>for\<close> loop throws at the first
  accepted token that is not in the list. When the network names a member of
  \<^verbatim>\<open>Object.prototype\<close>, the test \<^verbatim>\<open>!supportedCurrencies[network]\<close> finds that member,
  \<^verbatim>\<open>supportedErc20\<close> is \<^verbatim>\<open>undefined\<close>, and the first turn of the loop (the tokens are not
  empty) throws a \<open>TypeError\<close> on \<^verbatim>\<open>supportedErc20.includes\<close>.
\<close>

definition createCreationAction :: "deps \<Rightarrow> IParameters \<Rightarrow> error + IAction" where
  "createCreationAction d creationParameters =
     (case acceptedTokens creationParameters of
        None \<Rightarrow> Inl AcceptedTokensRequired
      | Some tokens \<Rightarrow>
          if tokens = [] then Inl AcceptedTokensRequired
          else if list_ex (\<lambda>address. \<not> isValidAddress d address) tokens
          then Inl AcceptedTokensInvalid
          else
            (case network creationParameters of
               None \<Rightarrow> Inl NetworkRequired
             | Some n \<Rightarrow>
                 if n = [] then Inl NetworkRequired
                 else
                   (case get_property supportedCurrencies n of
                      Undefined \<Rightarrow> Inl (NetworkNotSupported n)
                    | Inherited k \<Rightarrow> Inl TypeError
                    | Own table \<Rightarrow>
                        (case table ERC20 of
                           None \<Rightarrow> Inl TypeError
                         | Some supportedErc20 \<Rightarrow>
                             (case find (\<lambda>address. toLowerCase address \<notin> set supportedErc20)
                                     tokens of
                                Some address \<Rightarrow> Inl (TokenNotSupported address n)
                              | None \<Rightarrow> super_createCreationAction d creationParameters)))))"

text \<open>
  \<^verbatim>\<open>checkSupportedCurrency(currency, network)\<close>. When the network names a member of
  \<^verbatim>\<open>Object.prototype\<close>, the first test finds that member, which has no property named by
  the currency type, and the second test throws.
\<close>

definition checkSupportedCurrency :: "ICurrency \<Rightarrow> string \<Rightarrow> error + unit" where
  "checkSupportedCurrency c n =
     (case get_property supportedCurrencies n of
        Undefined \<Rightarrow> Inl (PnNetworkNotSupported n)
      | Inherited k \<Rightarrow> Inl (CurrencyTypeNotSupported (currency_type c))
      | Own table \<Rightarrow>
          (case table (currency_type c) of
             None \<Rightarrow> Inl (CurrencyTypeNotSupported (currency_type c))
           | Some supported \<Rightarrow>
               (let normalizedCurrencyValue =
                      (if currency_type c \<noteq> ISO4217 then toLowerCase (currency_value c)
                       else currency_value c)
                in if normalizedCurrencyValue \<notin> set supported
                   then Inl (CurrencyNotSupported (currency_value c))
                   else Inr ())))"

text \<open>\<^verbatim>\<open>applyCreation(extensionAction, timestamp)\<close>\<close>

definition applyCreation :: "deps \<Rightarrow> IAction \<Rightarrow> nat \<Rightarrow> error + IState" where
  "applyCreation d extensionAction timestamp =
     (let ps = parameters extensionAction in
      if \<not> truthy (network ps) then Inl NetworkRequired
      else
        (case acceptedTokens ps of
           None \<Rightarrow> Inl AcceptedTokensRequiredNotEmpty
         | Some tokens \<Rightarrow>
             if tokens = [] then Inl AcceptedTokensRequiredNotEmpty
             else if list_ex (\<lambda>address. \<not> isValidAddress d address) tokens
             then Inl AcceptedTokensInvalid
             else
               (case super_applyCreation d extensionAction timestamp of
                  Inl e \<Rightarrow> Inl e
                | Inr feePNCreationAction \<Rightarrow>
                    Inr (feePNCreationAction
                      \<lparr> state_values := (state_values feePNCreationAction)
                          \<lparr> network := Some (or_default (network ps) DEFAULT_NETWORK),
                            acceptedTokens := acceptedTokens ps,
                            maxRateTimespan := maxRateTimespan ps \<rparr>,
                        state_events :=
                          [\<lparr> event_name = ''create'',
                             event_parameters =
                               \<lparr> feeAddress = feeAddress ps,
                                 feeAmount = feeAmount ps,
                                 paymentAddress = paymentAddress ps,
                                 refundAddress = refundAddress ps,
                                 salt = salt ps,
                                 network = Some (or_default (network ps) DEFAULT_NETWORK),
                                 acceptedTokens = acceptedTokens ps,
                                 maxRateTimespan = maxRateTimespan ps \<rparr>,
                             event_timestamp = timestamp \<rparr>] \<rparr>))))"

text \<open>
  What \<^verbatim>\<open>applyActionToExtension\<close> returns: the copied object, given by its own properties
  and, when the assignment below has replaced its prototype, by the extension state that is
  its prototype now.
\<close>

record returned_states =
  own_states :: IExtensionStates
  prototype_state :: "IState option"

text \<open>
  \<^verbatim>\<open>copiedExtensionState[extensionAction.id] = ...\<close>, where the right-hand side may throw.
  The assignment sets the own property of that name. For the name \<^verbatim>\<open>__proto__\<close>, on an
  object that has no own property of that name, it runs the setter of
  \<^verbatim>\<open>Object.prototype\<close> instead, which makes the assigned state the prototype of the object
  and adds no property.
\<close>

definition store_state ::
  "IExtensionStates \<Rightarrow> string \<Rightarrow> error + IState \<Rightarrow> error + returned_states" where
  "store_state copiedExtensionState i r =
     (case r of
        Inl e \<Rightarrow> Inl e
      | Inr s \<Rightarrow>
          if i = ''__proto__'' \<and> copiedExtensionState i = None
          then Inr \<lparr> own_states = copiedExtensionState, prototype_state = Some s \<rparr>
          else Inr \<lparr> own_states = copiedExtensionState(i \<mapsto> s), prototype_state = None \<rparr>)"

text \<open>
  \<^verbatim>\<open>applyActionToExtension(extensionsState, extensionAction, requestState, actionSigner, timestamp)\<close>.
  \<^verbatim>\<open>Utils.deepCopy(extensionsState)\<close> is a plain object with the same own properties: the
  model has values, not references, and the assignment leaves the argument as it was. The
  tests \<^verbatim>\<open>requestState.extensions[extensionAction.id]\<close> are truthy for a stored state and
  for a member of \<^verbatim>\<open>Object.prototype\<close>.
\<close>

definition applyActionToExtension ::
  "deps \<Rightarrow> IExtensionStates \<Rightarrow> IAction \<Rightarrow> IRequest \<Rightarrow> IIdentity \<Rightarrow> nat
     \<Rightarrow> error + returned_states" where
  "applyActionToExtension d extensionsState extensionAction requestState actionSigner timestamp =
     (case checkSupportedCurrency (currency requestState)
             (or_default (network (parameters extensionAction)) DEFAULT_NETWORK) of
        Inl e \<Rightarrow> Inl e
      | Inr _ \<Rightarrow>
          (let copiedExtensionState = extensionsState;
               i = action_id extensionAction in
           if action extensionAction = CREATE then
             (if get_property (extensions requestState) i \<noteq> Undefined
              then Inl ExtensionAlreadyCreated
              else store_state copiedExtensionState i
                     (applyCreation d extensionAction timestamp))
           else if get_property (extensions requestState) i = Undefined
           then Inl ExtensionNotCreated
           else if action extensionAction = ADD_PAYMENT_ADDRESS then
             store_state copiedExtensionState i
               (applyAddPaymentAddress d (isValidAddress d)
                  (get_property copiedExtensionState i)
                  extensionAction requestState actionSigner timestamp)
           else if action extensionAction = ADD_REFUND_ADDRESS then
             store_state copiedExtensionState i
               (applyAddRefundAddress d (isValidAddress d)
                  (get_property copiedExtensionState i)
                  extensionAction requestState actionSigner timestamp)
           else if action extensionAction = ADD_FEE then
             store_state copiedExtensionState i
               (applyAddFee d (get_property copiedExtensionState i)
                  extensionAction requestState actionSigner timestamp)
           else Inl (UnknownAction (action extensionAction))))"

section \<open>PaymentNetworkERC20AddressBased\<close>

subsection \<open>bn.js numbers\<close>

text \<open>
  A \<^verbatim>\<open>bn.js\<close> number is an unbounded integer, here an \<open>int\<close>. \<^verbatim>\<open>new bigNumber(s)\<close>
  reads a decimal string with an optional leading minus sign and \<^verbatim>\<open>toString()\<close> writes
  one. Amounts and balances are such strings; a character that is no decimal digit
  reads as 0 here, and no string the code below produces holds one.
\<close>

definition digit_char :: "nat \<Rightarrow> char" where
  "digit_char d = ''0123456789'' ! d"

definition digit_val :: "char \<Rightarrow> nat" where
  "digit_val c =
     (case map_of (zip ''0123456789'' [0, 1, 2, 3, 4, 5, 6, 7, 8, 9]) c of
        Some d \<Rightarrow> d
      | None \<Rightarrow> 0)"

fun toString_nat :: "nat \<Rightarrow> string" where
  "toString_nat n =
     (if n < 10 then [digit_char n] else toString_nat (n div 10) @ [digit_char (n mod 10)])"

declare toString_nat.simps [simp del]

definition toString :: "int \<Rightarrow> string" where
  "toString i = (if i < 0 then CHR ''-'' # toString_nat (nat (- i)) else toString_nat (nat i))"

definition parse_nat :: "string \<Rightarrow> nat" where
  "parse_nat s = foldl (\<lambda>acc c. acc * 10 + digit_val c) 0 s"

definition bigNumber :: "string \<Rightarrow> int" where
  "bigNumber s =
     (case s of
        [] \<Rightarrow> 0
      | c # ds \<Rightarrow> if c = CHR ''-'' then - int (parse_nat ds) else int (parse_nat s))"

text \<open>\<^verbatim>\<open>new bigNumber(balance || 0)\<close>: the empty string is falsy.\<close>

definition bigNumber_or_0 :: "string \<Rightarrow> int" where
  "bigNumber_or_0 s = (if s = [] then 0 else bigNumber s)"

subsection \<open>Events and the ledger\<close>

datatype EVENTS_NAMES = PAYMENT | REFUND

text \<open>\<^verbatim>\<open>ERC20PaymentNetworkEvent = { amount, name, timestamp? }\<close>\<close>

record ERC20PaymentNetworkEvent =
  amount :: string
  ev_name :: EVENTS_NAMES
  ev_timestamp :: "nat option"

record ERC20BalanceWithEvents =
  balance :: string
  events :: "ERC20PaymentNetworkEvent list"

text \<open>
  \<^verbatim>\<open>new Erc20InfoRetriever(tokenContractAddress, address, eventName, network).getTransferEvents()\<close>
  asks the ledger; the retriever is not among the sources. A query is the four
  constructor arguments, and the ledger, a parameter of the model, answers a query with the
  events or with an error.
\<close>

type_synonym query = "string \<times> string \<times> EVENTS_NAMES \<times> string"

type_synonym ledger = "query \<Rightarrow> error + ERC20PaymentNetworkEvent list"

definition supportedNetworks :: "string list" where
  "supportedNetworks = [''mainnet'', ''rinkeby'', ''private'']"

definition PAYMENT_NETWORK_ERC20_ADDRESS_BASED :: string where
  "PAYMENT_NETWORK_ERC20_ADDRESS_BASED = ''pn-erc20-address-based''"

text \<open>\<^verbatim>\<open>extractBalanceAndEvents(address, eventName, network, tokenContractAddress)\<close>\<close>

definition extractBalanceAndEvents ::
  "ledger \<Rightarrow> string \<Rightarrow> EVENTS_NAMES \<Rightarrow> string \<Rightarrow> string \<Rightarrow> error + ERC20BalanceWithEvents" where
  "extractBalanceAndEvents ledger address eventName net tokenContractAddress =
     (case ledger (tokenContractAddress, address, eventName, net) of
        Inl e \<Rightarrow> Inl e
      | Inr evs \<Rightarrow>
          Inr \<lparr> balance = toString (foldl (\<lambda>acc event. acc + bigNumber (amount event)) 0 evs),
                events = evs \<rparr>)"

text \<open>
  What \<^verbatim>\<open>getBalance\<close> leaves behind: its result (the promise's value or its rejection),
  the request object after the call (the function assigns to \<^verbatim>\<open>request.currency.network\<close>)
  and the ledger queries it issued, in order.
\<close>

record getBalance_outcome =
  result :: "error + ERC20BalanceWithEvents"
  request_after :: IRequest
  queries :: "query list"

text \<open>Lines 73 to 75: \<^verbatim>\<open>if (!request.currency.network) request.currency.network = 'mainnet'\<close>\<close>

definition default_network :: "IRequest \<Rightarrow> IRequest" where
  "default_network request =
     (if \<not> truthy (currency_network (currency request))
      then request\<lparr> currency := (currency request)\<lparr> currency_network := Some ''mainnet'' \<rparr> \<rparr>
      else request)"

text \<open>
  \<^verbatim>\<open>let payments = { balance: '0', events: [] }; if (paymentAddress) payments = await
  this.extractBalanceAndEvents(...)\<close>, and the same for the refunds: the balance with
  events, and the queries issued for it.
\<close>

definition retrieve ::
  "ledger \<Rightarrow> string option \<Rightarrow> EVENTS_NAMES \<Rightarrow> string \<Rightarrow> string
     \<Rightarrow> (error + ERC20BalanceWithEvents) \<times> query list" where
  "retrieve ledger address eventName net tokenContractAddress =
     (case address of
        None \<Rightarrow> (Inr \<lparr> balance = ''0'', events = [] \<rparr>, [])
      | Some a \<Rightarrow>
          if a = [] then (Inr \<lparr> balance = ''0'', events = [] \<rparr>, [])
          else (extractBalanceAndEvents ledger a eventName net tokenContractAddress,
                [(tokenContractAddress, a, eventName, net)]))"

text \<open>\<^verbatim>\<open>a.timestamp || 0\<close>\<close>

definition timestamp_or_0 :: "ERC20PaymentNetworkEvent \<Rightarrow> nat" where
  "timestamp_or_0 e = (case ev_timestamp e of None \<Rightarrow> 0 | Some t \<Rightarrow> t)"

text \<open>
  \<^verbatim>\<open>getBalance(request)\<close>. \<^verbatim>\<open>Array.prototype.sort\<close> with the comparator
  \<^verbatim>\<open>(a.timestamp || 0) - (b.timestamp || 0)\<close> is a stable sort by that key
  (ECMAScript 2019), here \<open>sort_key\<close>. Reading \<^verbatim>\<open>.values\<close> of an extension the request does
  not have is a \<open>TypeError\<close>. After lines 73 to 75 every read of
  \<^verbatim>\<open>request.currency.network\<close> gives \<open>net\<close>, the network the request came with or
  \<^verbatim>\<open>'mainnet'\<close>.
\<close>

definition getBalance :: "ledger \<Rightarrow> IRequest \<Rightarrow> getBalance_outcome" where
  "getBalance ledger request0 =
     (let request = default_network request0;
          net = or_default (currency_network (currency request0)) ''mainnet''
      in
        if net \<notin> set supportedNetworks
        then \<lparr> result = Inl (PaymentNetworkNotSupported net),
               request_after = request, queries = [] \<rparr>
        else
          (case extensions request PAYMENT_NETWORK_ERC20_ADDRESS_BASED of
             None \<Rightarrow> \<lparr> result = Inl TypeError, request_after = request, queries = [] \<rparr>
           | Some ext \<Rightarrow>
               (case retrieve ledger (paymentAddress (state_values ext)) PAYMENT net
                       (currency_value (currency request)) of
                  (Inl e, qs1) \<Rightarrow>
                    \<lparr> result = Inl e, request_after = request, queries = qs1 \<rparr>
                | (Inr payments, qs1) \<Rightarrow>
                    (case retrieve ledger (refundAddress (state_values ext)) REFUND net
                            (currency_value (currency request)) of
                       (Inl e, qs2) \<Rightarrow>
                         \<lparr> result = Inl e, request_after = request, queries = qs1 @ qs2 \<rparr>
                     | (Inr refunds, qs2) \<Rightarrow>
                         \<lparr> result = Inr
                             \<lparr> balance = toString (bigNumber_or_0 (balance payments)
                                                    - bigNumber_or_0 (balance refunds)),
                               events = sort_key timestamp_or_0
                                          (events payments @ events refunds) \<rparr>,
                           request_after = request,
                           queries = qs1 @ qs2 \<rparr>))))"

text \<open>
  Concrete inputs: a DAI request with a given network, payment address and refund address;
  a ledger that knows two payments to one address (100 at time 30, 50 at time 10) and one
  refund to another (30 at time 20) on mainnet, and nothing else.
\<close>

definition example_erc20_request ::
  "string option \<Rightarrow> string option \<Rightarrow> string option \<Rightarrow> IRequest" where
  "example_erc20_request net pa ra =
     \<lparr> currency =
         \<lparr> currency_type = ERC20,
           currency_value = ''0x6b175474e89094c44da98b954eedeac495271d0f'',
           currency_network = net \<rparr>,
       extensions =
         [PAYMENT_NETWORK_ERC20_ADDRESS_BASED \<mapsto>
            \<lparr> state_id = PAYMENT_NETWORK_ERC20_ADDRESS_BASED,
              state_type = ''payment-network'', state_version = ''0.1.0'',
              state_values =
                \<lparr> feeAddress = None, feeAmount = None,
                  paymentAddress = pa, refundAddress = ra,
                  salt = None, network = None, acceptedTokens = None,
                  maxRateTimespan = None \<rparr>,
              state_events = [] \<rparr>] \<rparr>"

definition example_payee :: string where
  "example_payee = ''0xf17f52151ebef6c7334fad080c5704d77216b732''"

definition example_payer :: string where
  "example_payer = ''0xc5fdf4076b8f3a5357c5e395ab970b5b54098fef''"

definition example_ledger :: ledger where
  "example_ledger q =
     (if q = (''0x6b175474e89094c44da98b954eedeac495271d0f'', example_payee, PAYMENT, ''mainnet'')
      then Inr [\<lparr> amount = ''100'', ev_name = PAYMENT, ev_timestamp = Some 30 \<rparr>,
                \<lparr> amount = ''50'', ev_name = PAYMENT, ev_timestamp = Some 10 \<rparr>]
      else if q = (''0x6b175474e89094c44da98b954eedeac495271d0f'', example_payer, REFUND,
                   ''mainnet'')
      then Inr [\<lparr> amount = ''30'', ev_name = REFUND, ev_timestamp = Some 20 \<rparr>]
      else Inr [])"

section \<open>ChainlinkConversionPathTools: rebuilding the aggregator map\<close>

text \<open>
  The arguments of one \<^verbatim>\<open>AggregatorUpdated(_input, _output, _aggregator)\<close> log, as
  \<^verbatim>\<open>parseLogArgs\<close> names them.
\<close>

record AggregatorUpdatedArgs =
  arg_input :: string
  arg_output :: string
  arg_aggregator :: string

text \<open>
  \<^verbatim>\<open>Map<string, Map<string, string>>\<close>: input currency to output currency to aggregator
  address. The reducer only reads, sets and deletes keys and asks for the size; it never
  iterates, so a finite map is the \<^verbatim>\<open>Map\<close>. Each inner \<^verbatim>\<open>Map\<close> is created by the reducer
  for one input and is reachable from that key alone.
\<close>

type_synonym aggregators = "(string, (string, string) fmap) fmap"

definition zero_address :: string where
  "zero_address = ''0x0000000000000000000000000000000000000000''"

text \<open>The callback of \<^verbatim>\<open>logs.reduce\<close> in \<^verbatim>\<open>getAggregators\<close>.\<close>

definition reducer :: "aggregators \<Rightarrow> AggregatorUpdatedArgs \<Rightarrow> aggregators" where
  "reducer aggregators args =
     (if arg_aggregator args = zero_address then
        (let deleted =
               (case fmlookup aggregators (arg_input args) of
                  None \<Rightarrow> aggregators
                | Some outputs \<Rightarrow>
                    fmupd (arg_input args) (fmdrop (arg_output args) outputs) aggregators)
         in case fmlookup deleted (arg_input args) of
              None \<Rightarrow> deleted
            | Some outputs \<Rightarrow>
                if fmdom outputs = {||} then fmdrop (arg_input args) deleted else deleted)
      else
        (case fmlookup aggregators (arg_input args) of
           None \<Rightarrow>
             fmupd (arg_input args) (fmupd (arg_output args) (arg_aggregator args) fmempty)
               aggregators
         | Some outputs \<Rightarrow>
             fmupd (arg_input args) (fmupd (arg_output args) (arg_aggregator args) outputs)
               aggregators))"

text \<open>\<^verbatim>\<open>const aggregatorsMaps = logs.reduce(..., new Map())\<close>\<close>

definition aggregatorsMaps :: "AggregatorUpdatedArgs list \<Rightarrow> aggregators" where
  "aggregatorsMaps logs = foldl reducer fmempty logs"

text \<open>The aggregator of an edge, if the map has the edge.\<close>

definition edge :: "aggregators \<Rightarrow> string \<Rightarrow> string \<Rightarrow> string option" where
  "edge aggregators i out =
     (case fmlookup aggregators i of None \<Rightarrow> None | Some outputs \<Rightarrow> fmlookup outputs out)"

text \<open>
  A concrete log stream: an aggregator from EUR to USD and one from USD to DAI. The
  currencies and aggregators stand for their addresses.
\<close>

definition example_logs :: "AggregatorUpdatedArgs list" where
  "example_logs =
     [\<lparr> arg_input = ''0xEUR'', arg_output = ''0xUSD'', arg_aggregator = ''0xAggregator1'' \<rparr>,
      \<lparr> arg_input = ''0xUSD'', arg_output = ''0xDAI'', arg_aggregator = ''0xAggregator2'' \<rparr>]"

section \<open>Properties of the freshness gate\<close>

text \<open>
  Claim C6. In \<^verbatim>\<open>getConversions\<close>, when the oldest rate timestamp of the path is more than
  600 seconds before the block timestamp, the call reverts with
  \<^verbatim>\<open>aggregator rate is outdated\<close>. When it is at most 600 seconds before the block
  timestamp, the freshness check passes: the call does not revert with that reason, and its
  result is that of the two conversions.
\<close>

theorem getConversions_freshness:
  "(unat oldest + 600 < unat now \<longrightarrow>
      getConversions now (Inr (rate, oldest, decimals)) requestAmount feesRequestAmount
        = Inl (Revert ''aggregator rate is outdated''))
 \<and> (unat oldest \<le> unat now \<and> unat now - unat oldest \<le> 600 \<longrightarrow>
      getConversions now (Inr (rate, oldest, decimals)) requestAmount feesRequestAmount
        \<noteq> Inl (Revert ''aggregator rate is outdated'')
    \<and> getConversions now (Inr (rate, oldest, decimals)) requestAmount feesRequestAmount =
        (case mul_div requestAmount rate decimals of
           Inl e \<Rightarrow> Inl e
         | Inr amountToPay \<Rightarrow>
             (case mul_div feesRequestAmount rate decimals of
                Inl e \<Rightarrow> Inl e
              | Inr amountToPayInFees \<Rightarrow> Inr (amountToPay, amountToPayInFees))))"
proof (intro conjI impI)
  assume old: "unat oldest + 600 < unat now"
  then have le: "oldest \<le> now"
    by (simp add: word_le_nat_alt)
  then have "unat (now - oldest) = unat now - unat oldest"
    by (simp add: unat_sub)
  with old have "\<not> now - oldest \<le> maxTimestampDeltaAcceptable"
    by (simp add: word_le_nat_alt maxTimestampDeltaAcceptable_def)
  with le show "getConversions now (Inr (rate, oldest, decimals)) requestAmount feesRequestAmount
      = Inl (Revert ''aggregator rate is outdated'')"
    by (simp add: getConversions_def safe_sub_def)
next
  assume fresh: "unat oldest \<le> unat now \<and> unat now - unat oldest \<le> 600"
  then have le: "oldest \<le> now"
    by (simp add: word_le_nat_alt)
  then have "unat (now - oldest) = unat now - unat oldest"
    by (simp add: unat_sub)
  with fresh have "now - oldest \<le> maxTimestampDeltaAcceptable"
    by (simp add: word_le_nat_alt maxTimestampDeltaAcceptable_def)
  with le show eq:
    "getConversions now (Inr (rate, oldest, decimals)) requestAmount feesRequestAmount =
        (case mul_div requestAmount rate decimals of
           Inl e \<Rightarrow> Inl e
         | Inr amountToPay \<Rightarrow>
             (case mul_div feesRequestAmount rate decimals of
                Inl e \<Rightarrow> Inl e
              | Inr amountToPayInFees \<Rightarrow> Inr (amountToPay, amountToPayInFees)))"
    by (simp add: getConversions_def safe_sub_def)
  show "getConversions now (Inr (rate, oldest, decimals)) requestAmount feesRequestAmount
      \<noteq> Inl (Revert ''aggregator rate is outdated'')"
    unfolding eq
    by (auto simp: mul_div_def safe_mul_def safe_div_def split: sum.splits if_splits)
qed

text \<open>A rate 601 seconds old is refused; a rate 599 seconds old converts 50 and 5 at rate
  2 over 1 into 100 and 10.\<close>

theorem getConversions_freshness_witness:
  "getConversions 1000601 (Inr (2, 1000000, 1)) 50 5 = Inl (Revert ''aggregator rate is outdated'')
 \<and> getConversions 1000599 (Inr (2, 1000000, 1)) 50 5 = Inr (100, 10)"
  using getConversions_freshness [of 1000000 1000601 2 1 50 5]
    getConversions_freshness [of 1000000 1000599 2 1 50 5]
  by (simp add: mul_div_def safe_mul_def safe_div_def)

section \<open>Properties of AnyToErc20ProxyPaymentNetwork\<close>

subsection \<open>Reading a property\<close>

lemma get_property_own: "obj k = Some v \<Longrightarrow> get_property obj k = Own v"
  by (simp add: get_property_def)

lemma get_property_inherited:
  "obj k = None \<Longrightarrow> k \<in> set Object_prototype \<Longrightarrow> get_property obj k = Inherited k"
  by (simp add: get_property_def)

lemma get_property_undefined:
  "obj k = None \<Longrightarrow> k \<notin> set Object_prototype \<Longrightarrow> get_property obj k = Undefined"
  by (simp add: get_property_def)

lemma get_property_Undefined_iff:
  "get_property obj k = Undefined \<longleftrightarrow> obj k = None \<and> k \<notin> set Object_prototype"
  by (simp add: get_property_def split: option.splits)

lemma supportedCurrencies_prototype:
  "n \<in> set Object_prototype \<Longrightarrow> supportedCurrencies n = None"
  by (auto simp: Object_prototype_def supportedCurrencies_def)

lemma proto_in_Object_prototype: "''__proto__'' \<in> set Object_prototype"
  by (simp add: Object_prototype_def)

subsection \<open>The currency check\<close>

lemma checkSupportedCurrency_network:
  "supportedCurrencies n = None \<Longrightarrow> n \<notin> set Object_prototype \<Longrightarrow>
   checkSupportedCurrency c n = Inl (PnNetworkNotSupported n)"
  by (simp add: checkSupportedCurrency_def get_property_undefined)

lemma checkSupportedCurrency_inherited:
  "n \<in> set Object_prototype \<Longrightarrow>
   checkSupportedCurrency c n = Inl (CurrencyTypeNotSupported (currency_type c))"
  by (simp add: checkSupportedCurrency_def get_property_inherited supportedCurrencies_prototype)

lemma checkSupportedCurrency_own:
  "supportedCurrencies n = Some tb \<Longrightarrow>
   checkSupportedCurrency c n =
     (case tb (currency_type c) of
        None \<Rightarrow> Inl (CurrencyTypeNotSupported (currency_type c))
      | Some supported \<Rightarrow>
          if (if currency_type c \<noteq> ISO4217 then toLowerCase (currency_value c)
              else currency_value c) \<notin> set supported
          then Inl (CurrencyNotSupported (currency_value c))
          else Inr ())"
  by (simp add: checkSupportedCurrency_def get_property_own Let_def split: option.splits)




lemma toLowerCase_char_not_upper_E: "toLowerCase_char c \<noteq> CHR ''E''"
  by (simp add: toLowerCase_char_def)

lemma toLowerCase_not_ETH: "toLowerCase v \<noteq> ''ETH''"
proof
  assume "toLowerCase v = ''ETH''"
  then obtain c cs where "v = c # cs" and "toLowerCase_char c = CHR ''E''"
    by (cases v) (auto simp: toLowerCase_def)
  then show False
    using toLowerCase_char_not_upper_E by blast
qed

lemma supportedCurrencies_ETH:
  "supportedCurrencies n = Some tb \<Longrightarrow> tb ETH = Some [''ETH'']"
  by (auto simp: supportedCurrencies_def split: if_splits)

lemma checkSupportedCurrency_ETH_fails:
  "isl (checkSupportedCurrency
          \<lparr> currency_type = ETH, currency_value = v, currency_network = nw \<rparr> n)"
proof (cases "supportedCurrencies n")
  case None
  then show ?thesis
    by (cases "n \<in> set Object_prototype")
       (simp_all add: checkSupportedCurrency_network checkSupportedCurrency_inherited)
next
  case (Some tb)
  then have "tb ETH = Some [''ETH'']"
    by (rule supportedCurrencies_ETH)
  with Some show ?thesis
    by (simp add: checkSupportedCurrency_own toLowerCase_not_ETH)
qed

lemmas check_defs = checkSupportedCurrency_def get_property_def supportedCurrencies_def
  Object_prototype_def toLowerCase_def toLowerCase_char_def

text \<open>
  Claim C10. The check lower-cases the value of every currency whose type is not ISO4217
  and then looks it up in the table, where the one ETH entry is the upper-case \<^verbatim>\<open>ETH\<close>.
  So the request currency ETH is refused on mainnet, an ISO4217 code is accepted in upper
  case only, an ERC20 address is accepted in any case, and no ETH value is accepted on any
  network.
\<close>

theorem checkSupportedCurrency_ETH_rejected:
  "checkSupportedCurrency
     \<lparr> currency_type = ETH, currency_value = ''ETH'', currency_network = Some ''mainnet'' \<rparr>
     ''mainnet'' = Inl (CurrencyNotSupported ''ETH'')
 \<and> checkSupportedCurrency
     \<lparr> currency_type = ISO4217, currency_value = ''USD'', currency_network = None \<rparr>
     ''mainnet'' = Inr ()
 \<and> checkSupportedCurrency
     \<lparr> currency_type = ISO4217, currency_value = ''usd'', currency_network = None \<rparr>
     ''mainnet'' = Inl (CurrencyNotSupported ''usd'')
 \<and> checkSupportedCurrency
     \<lparr> currency_type = ERC20,
       currency_value = ''0x6B175474E89094C44Da98b954EedeAC495271d0F'',
       currency_network = None \<rparr>
     ''mainnet'' = Inr ()
 \<and> (\<forall>v nw n. isl (checkSupportedCurrency
                     \<lparr> currency_type = ETH, currency_value = v, currency_network = nw \<rparr> n))"
  by (simp add: checkSupportedCurrency_ETH_fails) (simp add: check_defs)

subsection \<open>The order of the checks in applyActionToExtension\<close>


lemma applyActionToExtension_check_passes:
  "checkSupportedCurrency (currency rs)
     (or_default (network (parameters a)) DEFAULT_NETWORK) = Inr u
   \<Longrightarrow> applyActionToExtension d es a rs signer t =
     (let i = action_id a in
      if action a = CREATE then
        (if get_property (extensions rs) i \<noteq> Undefined then Inl ExtensionAlreadyCreated
         else store_state es i (applyCreation d a t))
      else if get_property (extensions rs) i = Undefined then Inl ExtensionNotCreated
      else if action a = ADD_PAYMENT_ADDRESS then
        store_state es i
          (applyAddPaymentAddress d (isValidAddress d) (get_property es i) a rs signer t)
      else if action a = ADD_REFUND_ADDRESS then
        store_state es i
          (applyAddRefundAddress d (isValidAddress d) (get_property es i) a rs signer t)
      else if action a = ADD_FEE then
        store_state es i (applyAddFee d (get_property es i) a rs signer t)
      else Inl (UnknownAction (action a)))"
  by (simp add: applyActionToExtension_def Let_def)

lemma store_state_plain:
  "i \<notin> set Object_prototype \<Longrightarrow>
   store_state es i r =
     (case r of
        Inl e \<Rightarrow> Inl e
      | Inr s \<Rightarrow> Inr \<lparr> own_states = es(i \<mapsto> s), prototype_state = None \<rparr>)"
  using proto_in_Object_prototype by (auto simp: store_state_def split: sum.splits)

lemma check_USD_mainnet:
  "checkSupportedCurrency (currency (example_request ISO4217 ''USD'' es))
     (or_default (network (parameters (example_action a))) DEFAULT_NETWORK) = Inr ()"
  by (simp add: check_defs example_request_def example_action_def example_parameters_def
      or_default_def DEFAULT_NETWORK_def)

lemma example_id_not_inherited: "''pn-any-to-erc20-proxy'' \<notin> set Object_prototype"
  by (simp add: Object_prototype_def)

lemmas example_defs = example_action_def example_request_def example_parameters_def
  example_state_def example_deps_def example_signer_def

lemmas extension_defs = applyActionToExtension_def check_defs or_default_def
  DEFAULT_NETWORK_def store_state_def applyCreation_def truthy_def Let_def




text \<open>
  Claim C1, amended. Once the currency check has passed: a \<^verbatim>\<open>CREATE\<close> action throws
  \<^verbatim>\<open>This extension has already been created\<close> when the request has a state for the
  extension id; every other action, of a known name or not, throws
  \<^verbatim>\<open>The extension should be created before receiving any other action\<close> when the request has
  no state for the id and the id names no member of \<^verbatim>\<open>Object.prototype\<close>; and an action of
  an unknown name throws \<^verbatim>\<open>Unknown action\<close> when the request has a state for the id.
\<close>

theorem applyActionToExtension_dispatch_errors:
  assumes "checkSupportedCurrency (currency rs)
             (or_default (network (parameters a)) DEFAULT_NETWORK) = Inr ()"
  shows "(action a = CREATE \<and> extensions rs (action_id a) \<noteq> None \<longrightarrow>
            applyActionToExtension d es a rs signer t = Inl ExtensionAlreadyCreated)
       \<and> (action a \<noteq> CREATE \<and> extensions rs (action_id a) = None
            \<and> action_id a \<notin> set Object_prototype \<longrightarrow>
            applyActionToExtension d es a rs signer t = Inl ExtensionNotCreated)
       \<and> (action a \<notin> {CREATE, ADD_PAYMENT_ADDRESS, ADD_REFUND_ADDRESS, ADD_FEE}
            \<and> extensions rs (action_id a) \<noteq> None \<longrightarrow>
            applyActionToExtension d es a rs signer t = Inl (UnknownAction (action a)))"
  by (auto simp: applyActionToExtension_check_passes [OF assms] Let_def
        get_property_Undefined_iff)

text \<open>On a request in USD: a second creation, a fee before any creation, and an action of
  an unknown name on an existing extension.\<close>

theorem applyActionToExtension_dispatch_errors_witness:
  "applyActionToExtension example_deps Map.empty (example_action CREATE)
     (example_request ISO4217 ''USD'' [''pn-any-to-erc20-proxy'' \<mapsto> example_state])
     example_signer 7
     = Inl ExtensionAlreadyCreated
 \<and> applyActionToExtension example_deps Map.empty (example_action ADD_FEE)
     (example_request ISO4217 ''USD'' Map.empty) example_signer 7
     = Inl ExtensionNotCreated
 \<and> applyActionToExtension example_deps Map.empty (example_action (OtherAction ''foo''))
     (example_request ISO4217 ''USD'' [''pn-any-to-erc20-proxy'' \<mapsto> example_state])
     example_signer 7
     = Inl (UnknownAction (OtherAction ''foo''))"
  using
    applyActionToExtension_dispatch_errors [OF check_USD_mainnet, of CREATE
      "[''pn-any-to-erc20-proxy'' \<mapsto> example_state]" example_deps Map.empty example_signer 7]
    applyActionToExtension_dispatch_errors [OF check_USD_mainnet, of ADD_FEE
      Map.empty example_deps Map.empty example_signer 7]
    applyActionToExtension_dispatch_errors [OF check_USD_mainnet, of "OtherAction ''foo''"
      "[''pn-any-to-erc20-proxy'' \<mapsto> example_state]" example_deps Map.empty example_signer 7]
    example_id_not_inherited
  by (simp add: example_action_def example_request_def)

text \<open>
  The claim as it is written fails in three places. A \<^verbatim>\<open>CREATE\<close> action on a request in BTC
  that already has the extension throws the currency error, not the already-created error.
  An action of an unknown name on a request without the extension throws the not-created
  error, not the unknown-action error. And an \<^verbatim>\<open>ADD_FEE\<close> action for the id \<^verbatim>\<open>toString\<close> on
  a request without extensions does not throw the not-created error: the test finds
  \<^verbatim>\<open>Object.prototype.toString\<close> and the action goes to its handler.
\<close>

theorem applyActionToExtension_dispatch_errors_counterexample:
  "applyActionToExtension example_deps Map.empty (example_action CREATE)
     (example_request BTC ''BTC'' [''pn-any-to-erc20-proxy'' \<mapsto> example_state])
     example_signer 7
     = Inl (CurrencyNotSupported ''BTC'')
 \<and> applyActionToExtension example_deps Map.empty (example_action CREATE)
     (example_request BTC ''BTC'' [''pn-any-to-erc20-proxy'' \<mapsto> example_state])
     example_signer 7
     \<noteq> Inl ExtensionAlreadyCreated
 \<and> applyActionToExtension example_deps Map.empty (example_action (OtherAction ''foo''))
     (example_request ISO4217 ''USD'' Map.empty) example_signer 7
     = Inl ExtensionNotCreated
 \<and> applyActionToExtension example_deps Map.empty (example_action (OtherAction ''foo''))
     (example_request ISO4217 ''USD'' Map.empty) example_signer 7
     \<noteq> Inl (UnknownAction (OtherAction ''foo''))
 \<and> applyActionToExtension example_deps Map.empty
     ((example_action ADD_FEE)\<lparr> action_id := ''toString'' \<rparr>)
     (example_request ISO4217 ''USD'' Map.empty) example_signer 7
     = store_state Map.empty ''toString''
         (applyAddFee example_deps (Inherited ''toString'')
            ((example_action ADD_FEE)\<lparr> action_id := ''toString'' \<rparr>)
            (example_request ISO4217 ''USD'' Map.empty) example_signer 7)
 \<and> applyActionToExtension example_deps Map.empty
     ((example_action ADD_FEE)\<lparr> action_id := ''toString'' \<rparr>)
     (example_request ISO4217 ''USD'' Map.empty) example_signer 7
     \<noteq> Inl ExtensionNotCreated"
  by (simp add: extension_defs example_defs)

text \<open>
  Claim C9, amended. Existence is read from the extensions of the request, not from the
  extension states the call is given. Once the currency check has passed, and for an id
  that names no member of \<^verbatim>\<open>Object.prototype\<close>: a \<^verbatim>\<open>CREATE\<close> action on an id that the given
  states have and the request has not is not refused as already created; its result is that
  of \<^verbatim>\<open>applyCreation\<close>, and when that succeeds the new state replaces the entry of the id in
  the returned copy. An \<^verbatim>\<open>ADD_PAYMENT_ADDRESS\<close>, \<^verbatim>\<open>ADD_REFUND_ADDRESS\<close> or \<^verbatim>\<open>ADD_FEE\<close> action
  on an id that the request has and the given states have not is handed to its handler with
  an undefined extension state.
\<close>

theorem applyActionToExtension_existence:
  assumes "checkSupportedCurrency (currency rs)
             (or_default (network (parameters a)) DEFAULT_NETWORK) = Inr ()"
    and "action_id a \<notin> set Object_prototype"
  shows "(action a = CREATE \<and> es (action_id a) \<noteq> None \<and> extensions rs (action_id a) = None \<longrightarrow>
            applyActionToExtension d es a rs signer t
              = store_state es (action_id a) (applyCreation d a t)
          \<and> (\<forall>s. applyCreation d a t = Inr s \<longrightarrow>
                applyActionToExtension d es a rs signer t
                  = Inr \<lparr> own_states = es(action_id a \<mapsto> s), prototype_state = None \<rparr>))
       \<and> (extensions rs (action_id a) \<noteq> None \<and> es (action_id a) = None \<longrightarrow>
            (action a = ADD_PAYMENT_ADDRESS \<longrightarrow>
               applyActionToExtension d es a rs signer t
                 = store_state es (action_id a)
                     (applyAddPaymentAddress d (isValidAddress d) Undefined a rs signer t))
          \<and> (action a = ADD_REFUND_ADDRESS \<longrightarrow>
               applyActionToExtension d es a rs signer t
                 = store_state es (action_id a)
                     (applyAddRefundAddress d (isValidAddress d) Undefined a rs signer t))
          \<and> (action a = ADD_FEE \<longrightarrow>
               applyActionToExtension d es a rs signer t
                 = store_state es (action_id a) (applyAddFee d Undefined a rs signer t)))"
  using assms(2)
  by (auto simp: applyActionToExtension_check_passes [OF assms(1)] Let_def
        get_property_Undefined_iff get_property_undefined store_state_plain)

text \<open>A creation over an existing entry of the given states, and a fee for an id the given
  states do not have: the stand-in handler fails on the missing state.\<close>

theorem applyActionToExtension_existence_witness:
  "applyActionToExtension example_deps [''pn-any-to-erc20-proxy'' \<mapsto> example_state]
     (example_action CREATE) (example_request ISO4217 ''USD'' Map.empty) example_signer 7
   = Inr \<lparr> own_states =
             [''pn-any-to-erc20-proxy'' \<mapsto>
                example_state\<lparr> state_events :=
                  [\<lparr> event_name = ''create'', event_parameters = example_parameters,
                     event_timestamp = 7 \<rparr>] \<rparr>],
           prototype_state = None \<rparr>
 \<and> applyActionToExtension example_deps Map.empty (example_action ADD_FEE)
     (example_request ISO4217 ''USD'' [''pn-any-to-erc20-proxy'' \<mapsto> example_state])
     example_signer 7
   = Inl TypeError"
proof -
  have created: "applyCreation example_deps (example_action CREATE) 7 =
     Inr (example_state\<lparr> state_events :=
         [\<lparr> event_name = ''create'', event_parameters = example_parameters,
            event_timestamp = 7 \<rparr>] \<rparr>)"
    by (simp add: applyCreation_def example_defs truthy_def or_default_def
          DEFAULT_NETWORK_def Let_def)
  have id: "action_id (example_action x) \<notin> set Object_prototype" for x
    by (simp add: example_action_def example_id_not_inherited)
  show ?thesis
    using
      applyActionToExtension_existence [OF check_USD_mainnet id, of CREATE
        "[''pn-any-to-erc20-proxy'' \<mapsto> example_state]" Map.empty example_deps example_signer 7]
      applyActionToExtension_existence [OF check_USD_mainnet id, of ADD_FEE Map.empty
        "[''pn-any-to-erc20-proxy'' \<mapsto> example_state]" example_deps example_signer 7]
      created
    by (simp add: example_action_def example_request_def store_state_def example_deps_def)
qed

text \<open>
  The claim as it is written fails where another check stops the call: a \<^verbatim>\<open>CREATE\<close> action
  without a network does not succeed, an \<^verbatim>\<open>ADD_FEE\<close> action on a request in BTC does not
  reach its handler, and a \<^verbatim>\<open>CREATE\<close> action for the id \<^verbatim>\<open>toString\<close>, which the given states
  have and the request has not, is refused as already created.
\<close>

theorem applyActionToExtension_existence_counterexample:
  "applyActionToExtension example_deps [''pn-any-to-erc20-proxy'' \<mapsto> example_state]
     ((example_action CREATE)\<lparr> parameters := example_parameters\<lparr> network := None \<rparr> \<rparr>)
     (example_request ISO4217 ''USD'' Map.empty) example_signer 7
   = Inl NetworkRequired
 \<and> applyActionToExtension example_deps Map.empty (example_action ADD_FEE)
     (example_request BTC ''BTC'' [''pn-any-to-erc20-proxy'' \<mapsto> example_state])
     example_signer 7
   = Inl (CurrencyNotSupported ''BTC'')
 \<and> applyActionToExtension example_deps [''toString'' \<mapsto> example_state]
     ((example_action CREATE)\<lparr> action_id := ''toString'' \<rparr>)
     (example_request ISO4217 ''USD'' Map.empty) example_signer 7
   = Inl ExtensionAlreadyCreated"
  by (simp add: extension_defs example_defs)

subsection \<open>Creation parameters\<close>

lemma find_first_offender:
  "list_ex P ts \<Longrightarrow> \<exists>a \<in> set ts. P a \<and> find P ts = Some a"
  by (induction ts) auto

lemma find_none: "list_all (\<lambda>a. \<not> P a) ts \<Longrightarrow> find P ts = None"
  by (induction ts) auto

lemma cca_tokens_missing:
  "acceptedTokens p = None \<or> acceptedTokens p = Some [] \<Longrightarrow>
   createCreationAction d p = Inl AcceptedTokensRequired"
  by (auto simp: createCreationAction_def)

lemma cca_tokens_invalid:
  "acceptedTokens p = Some ts \<Longrightarrow> list_ex (\<lambda>a. \<not> isValidAddress d a) ts \<Longrightarrow>
   createCreationAction d p = Inl AcceptedTokensInvalid"
  by (auto simp: createCreationAction_def)

lemma cca_tokens_valid:
  assumes "acceptedTokens p = Some ts" "ts \<noteq> []" "list_all (isValidAddress d) ts"
  shows "createCreationAction d p =
            (case network p of
               None \<Rightarrow> Inl NetworkRequired
             | Some n \<Rightarrow>
                 if n = [] then Inl NetworkRequired
                 else
                   (case get_property supportedCurrencies n of
                      Undefined \<Rightarrow> Inl (NetworkNotSupported n)
                    | Inherited k \<Rightarrow> Inl TypeError
                    | Own table \<Rightarrow>
                        (case table ERC20 of
                           None \<Rightarrow> Inl TypeError
                         | Some supportedErc20 \<Rightarrow>
                             (case find (\<lambda>address. toLowerCase address \<notin> set supportedErc20)
                                     ts of
                                Some address \<Rightarrow> Inl (TokenNotSupported address n)
                              | None \<Rightarrow> super_createCreationAction d p))))"
proof -
  have "\<not> list_ex (\<lambda>a. \<not> isValidAddress d a) ts"
    using assms(3) by (simp add: list_ex_iff list_all_iff)
  with assms(1,2) show ?thesis
    by (simp add: createCreationAction_def)
qed

lemma cca_network_missing_throws:
  "\<not> truthy (network p) \<Longrightarrow> isl (createCreationAction d p)"
  by (auto simp: createCreationAction_def truthy_def split: option.splits)

lemma cca_network_unsupported_throws:
  "network p = Some n \<Longrightarrow> supportedCurrencies n = None \<Longrightarrow> isl (createCreationAction d p)"
  by (auto simp: createCreationAction_def get_property_def split: option.splits)

text \<open>
  Claim C3. \<^verbatim>\<open>createCreationAction\<close> throws when \<^verbatim>\<open>acceptedTokens\<close> is missing or empty; it
  throws when an accepted token is not a valid address; it throws when the network is
  missing or not in the table. With accepted tokens that are all valid addresses, the error
  for a missing network is \<^verbatim>\<open>network is required\<close>; the error for a network that is not in
  the table names the network, unless the network names a member of \<^verbatim>\<open>Object.prototype\<close>:
  then the call passes the test of the network and throws a \<open>TypeError\<close> in the loop over
  the tokens. A token whose lower-cased form is not in the ERC20 list of the network gives
  the error that names the first such token and the network; when every token is in the
  list the result is that of the base class.
\<close>

theorem createCreationAction_validation:
  "(acceptedTokens p = None \<or> acceptedTokens p = Some [] \<longrightarrow>
      createCreationAction d p = Inl AcceptedTokensRequired)
 \<and> (\<forall>ts. acceptedTokens p = Some ts \<and> list_ex (\<lambda>a. \<not> isValidAddress d a) ts \<longrightarrow>
      createCreationAction d p = Inl AcceptedTokensInvalid)
 \<and> (\<not> truthy (network p) \<or> (\<exists>n. network p = Some n \<and> supportedCurrencies n = None) \<longrightarrow>
      isl (createCreationAction d p))
 \<and> (\<forall>ts. acceptedTokens p = Some ts \<and> ts \<noteq> [] \<and> list_all (isValidAddress d) ts \<longrightarrow>
      (\<not> truthy (network p) \<longrightarrow> createCreationAction d p = Inl NetworkRequired)
    \<and> (\<forall>n. network p = Some n \<and> n \<noteq> [] \<and> supportedCurrencies n = None
            \<and> n \<notin> set Object_prototype \<longrightarrow>
          createCreationAction d p = Inl (NetworkNotSupported n))
    \<and> (\<forall>n. network p = Some n \<and> n \<in> set Object_prototype \<longrightarrow>
          createCreationAction d p = Inl TypeError)
    \<and> (\<forall>n tb erc20. network p = Some n \<and> n \<noteq> [] \<and> supportedCurrencies n = Some tb
            \<and> tb ERC20 = Some erc20 \<longrightarrow>
          (list_ex (\<lambda>a. toLowerCase a \<notin> set erc20) ts \<longrightarrow>
             (\<exists>a \<in> set ts. toLowerCase a \<notin> set erc20
                \<and> find (\<lambda>a. toLowerCase a \<notin> set erc20) ts = Some a
                \<and> createCreationAction d p = Inl (TokenNotSupported a n)))
        \<and> (list_all (\<lambda>a. toLowerCase a \<in> set erc20) ts \<longrightarrow>
             createCreationAction d p = super_createCreationAction d p)))"
proof (intro conjI allI impI)
  show "createCreationAction d p = Inl AcceptedTokensRequired"
    if "acceptedTokens p = None \<or> acceptedTokens p = Some []"
    using that by (rule cca_tokens_missing)
  show "createCreationAction d p = Inl AcceptedTokensInvalid"
    if "acceptedTokens p = Some ts \<and> list_ex (\<lambda>a. \<not> isValidAddress d a) ts" for ts
    using that by (auto intro: cca_tokens_invalid)
  show "isl (createCreationAction d p)"
    if "\<not> truthy (network p) \<or> (\<exists>n. network p = Some n \<and> supportedCurrencies n = None)"
    using that by (auto intro: cca_network_missing_throws cca_network_unsupported_throws)
next
  fix ts
  assume ok: "acceptedTokens p = Some ts \<and> ts \<noteq> [] \<and> list_all (isValidAddress d) ts"
  note eq = cca_tokens_valid [of p ts d]
  show "createCreationAction d p = Inl NetworkRequired" if "\<not> truthy (network p)"
    using ok that by (simp add: eq truthy_def split: option.splits)
  show "createCreationAction d p = Inl (NetworkNotSupported n)"
    if "network p = Some n \<and> n \<noteq> [] \<and> supportedCurrencies n = None
          \<and> n \<notin> set Object_prototype" for n
    using ok that by (simp add: eq get_property_undefined)
  show "createCreationAction d p = Inl TypeError"
    if h: "network p = Some n \<and> n \<in> set Object_prototype" for n
  proof -
    from h have "n \<noteq> []"
      by (auto simp: Object_prototype_def)
    with ok h show ?thesis
      by (simp add: eq get_property_inherited supportedCurrencies_prototype)
  qed
  show "\<exists>a \<in> set ts. toLowerCase a \<notin> set erc20
                \<and> find (\<lambda>a. toLowerCase a \<notin> set erc20) ts = Some a
                \<and> createCreationAction d p = Inl (TokenNotSupported a n)"
    if h: "network p = Some n \<and> n \<noteq> [] \<and> supportedCurrencies n = Some tb
             \<and> tb ERC20 = Some erc20"
      and ex: "list_ex (\<lambda>a. toLowerCase a \<notin> set erc20) ts" for n tb erc20
  proof -
    from find_first_offender [OF ex] obtain a where
      a: "a \<in> set ts" "toLowerCase a \<notin> set erc20"
         "find (\<lambda>a. toLowerCase a \<notin> set erc20) ts = Some a"
      by blast
    have "createCreationAction d p = Inl (TokenNotSupported a n)"
      using ok h a(3) by (simp add: eq get_property_own)
    with a show ?thesis
      by blast
  qed
  show "createCreationAction d p = super_createCreationAction d p"
    if h: "network p = Some n \<and> n \<noteq> [] \<and> supportedCurrencies n = Some tb
             \<and> tb ERC20 = Some erc20"
      and al: "list_all (\<lambda>a. toLowerCase a \<in> set erc20) ts" for n tb erc20
  proof -
    have "find (\<lambda>a. toLowerCase a \<notin> set erc20) ts = None"
      using al by (intro find_none) simp
    then show ?thesis
      using ok h by (simp add: eq get_property_own)
  qed
qed

text \<open>Missing tokens, a short address, a missing network, the network \<^verbatim>\<open>kovan\<close>, the
  network \<^verbatim>\<open>constructor\<close>, a token that mainnet does not list after DAI, and DAI alone.\<close>

theorem createCreationAction_validation_witness:
  "createCreationAction example_deps (example_parameters\<lparr> acceptedTokens := None \<rparr>)
     = Inl AcceptedTokensRequired
 \<and> createCreationAction example_deps (example_parameters\<lparr> acceptedTokens := Some [''0x6b17''] \<rparr>)
     = Inl AcceptedTokensInvalid
 \<and> createCreationAction example_deps (example_parameters\<lparr> network := None \<rparr>)
     = Inl NetworkRequired
 \<and> createCreationAction example_deps (example_parameters\<lparr> network := Some ''kovan'' \<rparr>)
     = Inl (NetworkNotSupported ''kovan'')
 \<and> createCreationAction example_deps (example_parameters\<lparr> network := Some ''constructor'' \<rparr>)
     = Inl TypeError
 \<and> createCreationAction example_deps
      (example_parameters\<lparr> acceptedTokens :=
         Some [''0x6B175474E89094C44Da98b954EedeAC495271d0F'',
               ''0x0000000000000000000000000000000000000001''] \<rparr>)
     = Inl (TokenNotSupported ''0x0000000000000000000000000000000000000001'' ''mainnet'')
 \<and> createCreationAction example_deps example_parameters
     = Inr \<lparr> action = CREATE, action_id = ''pn-any-to-erc20-proxy'',
             parameters = example_parameters \<rparr>"
proof (intro conjI)
  let ?dai = "''0x6B175474E89094C44Da98b954EedeAC495271d0F''"
  let ?one = "''0x0000000000000000000000000000000000000001''"
  have kovan: "supportedCurrencies ''kovan'' = None" "''kovan'' \<notin> set Object_prototype"
    by (simp_all add: supportedCurrencies_def Object_prototype_def)
  have constructor: "''constructor'' \<in> set Object_prototype"
    by (simp add: Object_prototype_def)
  have valid: "list_all (isValidAddress example_deps) [?dai]"
              "list_all (isValidAddress example_deps) [?dai, ?one]"
    by (simp_all add: example_deps_def)
  have erc20: "the (supportedCurrencies ''mainnet'') ERC20 = Some
            [''0x1f573d6fb3f13d689ff844b4ce37794d79a7ff1c'',
             ''0x3845badade8e6dff049820680d1f14bd3903a5d0'',
             ''0x4e15361fd6b4bb609fa63c81a2be19d873717870'',
             ''0x6b175474e89094c44da98b954eedeac495271d0f'',
             ''0x7fc66500c84a76ad7e9c93437bfc5ac33e2ddae9'',
             ''0x8290333cef9e6d528dd5618fb97a76f268f3edd4'',
             ''0x967da4048cd07ab37855c090aaf366e4ce1b9f48'',
             ''0x9f8f72aa9304c8b593d555f12ef6589cc3a579a2'',
             ''0xa0b86991c6218b36c1d19d4a2e9eb0ce3606eb48'',
             ''0xa117000000f279d81a1d3cc75430faa017fa5a2e'',
             ''0xc944e90c64b2c07662a292be6244bdf05cda44a7'',
             ''0xdac17f958d2ee523a2206206994597c13d831ec7'']" (is "_ = Some ?erc20")
    by (simp add: supportedCurrencies_def)
  have main: "supportedCurrencies ''mainnet'' = Some (the (supportedCurrencies ''mainnet''))"
    by (simp add: supportedCurrencies_def)
  have low_dai: "toLowerCase ?dai = ''0x6b175474e89094c44da98b954eedeac495271d0f''"
    by (simp add: toLowerCase_def toLowerCase_char_def)
  have low_one: "toLowerCase ?one = ?one"
    by (simp add: toLowerCase_def toLowerCase_char_def)
  show "createCreationAction example_deps (example_parameters\<lparr> acceptedTokens := None \<rparr>)
     = Inl AcceptedTokensRequired"
    using createCreationAction_validation
        [of "example_parameters\<lparr> acceptedTokens := None \<rparr>" example_deps, THEN conjunct1]
    by simp
  show "createCreationAction example_deps
          (example_parameters\<lparr> acceptedTokens := Some [''0x6b17''] \<rparr>)
     = Inl AcceptedTokensInvalid"
    using createCreationAction_validation
        [of "example_parameters\<lparr> acceptedTokens := Some [''0x6b17''] \<rparr>" example_deps,
          THEN conjunct2, THEN conjunct1, THEN spec, of "[''0x6b17'']"]
    by (simp add: example_deps_def)
  note rest = conjunct2 [OF conjunct2 [OF conjunct2]]
  show "createCreationAction example_deps (example_parameters\<lparr> network := None \<rparr>)
     = Inl NetworkRequired"
    using createCreationAction_validation
        [of "example_parameters\<lparr> network := None \<rparr>" example_deps, THEN rest, THEN spec,
          of "[?dai]", THEN mp, THEN conjunct1] valid(1)
    by (simp add: example_parameters_def truthy_def)
  show "createCreationAction example_deps (example_parameters\<lparr> network := Some ''kovan'' \<rparr>)
     = Inl (NetworkNotSupported ''kovan'')"
    using createCreationAction_validation
        [of "example_parameters\<lparr> network := Some ''kovan'' \<rparr>" example_deps, THEN rest,
          THEN spec, of "[?dai]", THEN mp, THEN conjunct2, THEN conjunct1, THEN spec,
          of "''kovan''"]
      valid(1) kovan
    by (simp add: example_parameters_def)
  show "createCreationAction example_deps
          (example_parameters\<lparr> network := Some ''constructor'' \<rparr>)
     = Inl TypeError"
    using createCreationAction_validation
        [of "example_parameters\<lparr> network := Some ''constructor'' \<rparr>" example_deps, THEN rest,
          THEN spec, of "[?dai]", THEN mp, THEN conjunct2, THEN conjunct2, THEN conjunct1,
          THEN spec, of "''constructor''"]
      valid(1) constructor
    by (simp add: example_parameters_def)
  show "createCreationAction example_deps
      (example_parameters\<lparr> acceptedTokens := Some [?dai, ?one] \<rparr>)
     = Inl (TokenNotSupported ?one ''mainnet'')"
    using createCreationAction_validation
        [of "example_parameters\<lparr> acceptedTokens := Some [?dai, ?one] \<rparr>" example_deps,
          THEN rest, THEN spec, of "[?dai, ?one]", THEN mp, THEN conjunct2, THEN conjunct2,
          THEN conjunct2, THEN spec, THEN spec, THEN spec,
          of "''mainnet''" "the (supportedCurrencies ''mainnet'')" ?erc20,
          THEN mp, THEN conjunct1]
      valid(2) main erc20
    by (simp add: example_parameters_def low_dai low_one)
  show "createCreationAction example_deps example_parameters
     = Inr \<lparr> action = CREATE, action_id = ''pn-any-to-erc20-proxy'',
             parameters = example_parameters \<rparr>"
    using createCreationAction_validation
        [of example_parameters example_deps,
          THEN rest, THEN spec, of "[?dai]", THEN mp, THEN conjunct2, THEN conjunct2,
          THEN conjunct2, THEN spec, THEN spec, THEN spec,
          of "''mainnet''" "the (supportedCurrencies ''mainnet'')" ?erc20,
          THEN mp, THEN conjunct2]
      valid(1) main erc20
    by (simp add: example_parameters_def low_dai) (simp add: example_deps_def)
qed


section \<open>Properties of PaymentNetworkERC20AddressBased\<close>

subsection \<open>Writing and reading a number\<close>

lemma digit_val_digit_char: "d < 10 \<Longrightarrow> digit_val (digit_char d) = d"
proof -
  assume "d < 10"
  then have "d \<in> {0, 1, 2, 3, 4, 5, 6, 7, 8, 9}" by auto
  then show ?thesis
    by (auto simp: digit_char_def digit_val_def)
qed

lemma digit_char_not_minus: "d < 10 \<Longrightarrow> digit_char d \<noteq> CHR ''-''"
proof -
  assume "d < 10"
  then have "d \<in> {0, 1, 2, 3, 4, 5, 6, 7, 8, 9}" by auto
  then show ?thesis
    by (auto simp: digit_char_def)
qed

lemma parse_nat_snoc: "parse_nat (s @ [c]) = parse_nat s * 10 + digit_val c"
  by (simp add: parse_nat_def)

lemma parse_nat_toString_nat: "parse_nat (toString_nat n) = n"
proof (induction n rule: toString_nat.induct)
  case (1 n)
  show ?case
  proof (cases "n < 10")
    case True
    then show ?thesis
      by (subst toString_nat.simps) (simp add: parse_nat_def digit_val_digit_char)
  next
    case False
    with "1.IH" show ?thesis
      by (subst toString_nat.simps) (simp add: parse_nat_snoc digit_val_digit_char)
  qed
qed

lemma toString_nat_head: "\<exists>c cs. toString_nat n = c # cs \<and> c \<noteq> CHR ''-''"
proof (induction n rule: toString_nat.induct)
  case (1 n)
  show ?case
  proof (cases "n < 10")
    case True
    then show ?thesis
      by (subst toString_nat.simps) (simp add: digit_char_not_minus)
  next
    case False
    with "1.IH" obtain c cs where "toString_nat (n div 10) = c # cs" "c \<noteq> CHR ''-''"
      by blast
    with False show ?thesis
      by (subst toString_nat.simps) simp
  qed
qed

lemma bigNumber_toString: "bigNumber (toString i) = i"
proof (cases "i < 0")
  case True
  then show ?thesis
    by (simp add: toString_def bigNumber_def parse_nat_toString_nat)
next
  case False
  obtain c cs where s: "toString_nat (nat i) = c # cs" "c \<noteq> CHR ''-''"
    using toString_nat_head by blast
  have "parse_nat (c # cs) = nat i"
    using parse_nat_toString_nat [of "nat i"] s by simp
  with False s show ?thesis
    by (simp add: toString_def bigNumber_def)
qed

lemma toString_not_empty: "toString i \<noteq> []"
  using toString_nat_head [of "nat i"] toString_nat_head [of "nat (- i)"]
  by (auto simp: toString_def)

lemma bigNumber_or_0_toString: "bigNumber_or_0 (toString i) = i"
  by (simp add: bigNumber_or_0_def toString_not_empty bigNumber_toString)

subsection \<open>Retrieving the events of an address\<close>

lemma foldl_add_amounts:
  "foldl (\<lambda>acc event. acc + bigNumber (amount event)) a evs
     = a + sum_list (map (\<lambda>event. bigNumber (amount event)) evs)"
  by (induction evs arbitrary: a) auto

lemma extractBalanceAndEvents_ok:
  "ledger (token, address, eventName, net) = Inr evs \<Longrightarrow>
   extractBalanceAndEvents ledger address eventName net token =
     Inr \<lparr> balance = toString (sum_list (map (\<lambda>event. bigNumber (amount event)) evs)),
           events = evs \<rparr>"
  by (simp add: extractBalanceAndEvents_def foldl_add_amounts)

lemma retrieve_absent:
  "\<not> truthy address \<Longrightarrow>
   retrieve ledger address eventName net token = (Inr \<lparr> balance = ''0'', events = [] \<rparr>, [])"
  by (auto simp: retrieve_def truthy_def split: option.splits)

lemma retrieve_present:
  "address = Some a \<Longrightarrow> a \<noteq> [] \<Longrightarrow> ledger (token, a, eventName, net) = Inr evs \<Longrightarrow>
   retrieve ledger address eventName net token =
     (Inr \<lparr> balance = toString (sum_list (map (\<lambda>event. bigNumber (amount event)) evs)),
            events = evs \<rparr>, [(token, a, eventName, net)])"
  by (simp add: retrieve_def extractBalanceAndEvents_ok)

lemma bigNumber_or_0_zero: "bigNumber_or_0 ''0'' = 0"
  by (simp add: bigNumber_or_0_def bigNumber_def parse_nat_def digit_val_def)

lemma default_network_currency:
  "currency_network (currency (default_network request))
     = Some (or_default (currency_network (currency request)) ''mainnet'')"
  by (auto simp: default_network_def truthy_def or_default_def split: option.splits)

lemma default_network_rest:
  "extensions (default_network request) = extensions request"
  "currency_value (currency (default_network request)) = currency_value (currency request)"
  "currency_type (currency (default_network request)) = currency_type (currency request)"
  by (simp_all add: default_network_def)

lemma default_network_present:
  "truthy (currency_network (currency request)) \<Longrightarrow> default_network request = request"
  by (simp add: default_network_def)

subsection \<open>The balance and the events\<close>

lemma getBalance_unsupported:
  "or_default (currency_network (currency request)) ''mainnet'' \<notin> set supportedNetworks \<Longrightarrow>
   getBalance ledger request =
     \<lparr> result = Inl (PaymentNetworkNotSupported
                       (or_default (currency_network (currency request)) ''mainnet'')),
       request_after = default_network request, queries = [] \<rparr>"
  by (simp add: getBalance_def Let_def)

lemma getBalance_retrieved:
  assumes "or_default (currency_network (currency request)) ''mainnet'' = net"
    and "net \<in> set supportedNetworks"
    and "extensions request PAYMENT_NETWORK_ERC20_ADDRESS_BASED = Some ext"
    and "retrieve ledger (paymentAddress (state_values ext)) PAYMENT net
           (currency_value (currency request)) = (Inr payments, qs1)"
    and "retrieve ledger (refundAddress (state_values ext)) REFUND net
           (currency_value (currency request)) = (Inr refunds, qs2)"
  shows "getBalance ledger request =
     \<lparr> result = Inr \<lparr> balance = toString (bigNumber_or_0 (balance payments)
                                            - bigNumber_or_0 (balance refunds)),
                       events = sort_key timestamp_or_0 (events payments @ events refunds) \<rparr>,
       request_after = default_network request,
       queries = qs1 @ qs2 \<rparr>"
  using assms by (simp add: getBalance_def Let_def default_network_rest)

lemma request_after_getBalance:
  "request_after (getBalance ledger request) = default_network request"
  by (simp add: getBalance_def Let_def split: option.splits prod.splits sum.splits)

lemma toString_0: "toString 0 = ''0''"
  by (simp add: toString_def toString_nat.simps digit_char_def)

lemma example_ledger_payments:
  "example_ledger (currency_value (currency (example_erc20_request net pa ra)),
                   example_payee, PAYMENT, ''mainnet'')
     = Inr [\<lparr> amount = ''100'', ev_name = PAYMENT, ev_timestamp = Some 30 \<rparr>,
            \<lparr> amount = ''50'', ev_name = PAYMENT, ev_timestamp = Some 10 \<rparr>]"
  by (simp add: example_erc20_request_def example_ledger_def example_payee_def)

lemma example_ledger_refunds:
  "example_ledger (currency_value (currency (example_erc20_request net pa ra)),
                   example_payer, REFUND, ''mainnet'')
     = Inr [\<lparr> amount = ''30'', ev_name = REFUND, ev_timestamp = Some 20 \<rparr>]"
  by (simp add: example_erc20_request_def example_ledger_def example_payer_def)

lemma example_amounts:
  "bigNumber ''100'' = 100" "bigNumber ''50'' = 50" "bigNumber ''30'' = 30"
  by (simp_all add: bigNumber_def parse_nat_def digit_val_def)

lemma toString_120: "toString 120 = ''120''"
  by (simp add: toString_def toString_nat.simps digit_char_def)

lemma toString_150: "toString 150 = ''150''"
  by (simp add: toString_def toString_nat.simps digit_char_def)

lemma toString_minus_30: "toString (- 30) = ''-30''"
  by (simp add: toString_def toString_nat.simps digit_char_def)

text \<open>
  Claim C2. For a request on a supported network whose payment and refund addresses are
  both given, and for the payment events and refund events the ledger returns for them,
  \<^verbatim>\<open>getBalance\<close> returns as balance the decimal string of the sum of the payment amounts
  minus the sum of the refund amounts, computed on unbounded integers, and as events the two
  lists put together and sorted by timestamp (a missing timestamp counts as 0): the result
  is in ascending order of timestamp, holds exactly the events of the two lists, and keeps
  events of equal timestamp in the order they had, payments before refunds.
\<close>

theorem getBalance_balance_and_events:
  assumes "or_default (currency_network (currency request)) ''mainnet'' = net"
    and "net \<in> set supportedNetworks"
    and "extensions request PAYMENT_NETWORK_ERC20_ADDRESS_BASED = Some ext"
    and "paymentAddress (state_values ext) = Some pa" and "pa \<noteq> []"
    and "ledger (currency_value (currency request), pa, PAYMENT, net) = Inr payments"
    and "refundAddress (state_values ext) = Some ra" and "ra \<noteq> []"
    and "ledger (currency_value (currency request), ra, REFUND, net) = Inr refunds"
  shows "result (getBalance ledger request) =
           Inr \<lparr> balance = toString (sum_list (map (\<lambda>e. bigNumber (amount e)) payments)
                                      - sum_list (map (\<lambda>e. bigNumber (amount e)) refunds)),
                 events = sort_key timestamp_or_0 (payments @ refunds) \<rparr>
       \<and> sorted (map timestamp_or_0 (sort_key timestamp_or_0 (payments @ refunds)))
       \<and> mset (sort_key timestamp_or_0 (payments @ refunds)) = mset payments + mset refunds
       \<and> (\<forall>k. filter (\<lambda>e. timestamp_or_0 e = k) (sort_key timestamp_or_0 (payments @ refunds))
              = filter (\<lambda>e. timestamp_or_0 e = k) (payments @ refunds))"
proof -
  note p = retrieve_present [where ledger = ledger, OF assms(4,5,6)]
  note r = retrieve_present [where ledger = ledger, OF assms(7,8,9)]
  show ?thesis
    by (simp add: getBalance_retrieved [OF assms(1,2,3) p r] bigNumber_or_0_toString
          sorted_sort_key sort_key_stable)
qed

text \<open>Payments of 100 and 50 and a refund of 30 give the balance 120 and the three events
  in the order of their timestamps.\<close>

theorem getBalance_balance_and_events_witness:
  "result (getBalance example_ledger
             (example_erc20_request None (Some example_payee) (Some example_payer))) =
     Inr \<lparr> balance = ''120'',
           events = [\<lparr> amount = ''50'', ev_name = PAYMENT, ev_timestamp = Some 10 \<rparr>,
                     \<lparr> amount = ''30'', ev_name = REFUND, ev_timestamp = Some 20 \<rparr>,
                     \<lparr> amount = ''100'', ev_name = PAYMENT, ev_timestamp = Some 30 \<rparr>] \<rparr>"
proof -
  let ?request = "example_erc20_request None (Some example_payee) (Some example_payer)"
  let ?ext = "the (extensions ?request PAYMENT_NETWORK_ERC20_ADDRESS_BASED)"
  have 1: "or_default (currency_network (currency ?request)) ''mainnet'' = ''mainnet''"
    by (simp add: example_erc20_request_def or_default_def)
  have 2: "''mainnet'' \<in> set supportedNetworks"
    by (simp add: supportedNetworks_def)
  have 3: "extensions ?request PAYMENT_NETWORK_ERC20_ADDRESS_BASED = Some ?ext"
    by (simp add: example_erc20_request_def)
  have 4: "paymentAddress (state_values ?ext) = Some example_payee" "example_payee \<noteq> []"
    by (simp_all add: example_erc20_request_def example_payee_def)
  have 5: "refundAddress (state_values ?ext) = Some example_payer" "example_payer \<noteq> []"
    by (simp_all add: example_erc20_request_def example_payer_def)
  note 6 = example_ledger_payments [of None "Some example_payee" "Some example_payer"]
  note 7 = example_ledger_refunds [of None "Some example_payee" "Some example_payer"]
  show ?thesis
    using getBalance_balance_and_events [OF 1 2 3 4 6 5 7, THEN conjunct1]
    by (simp add: example_amounts toString_120 timestamp_or_0_def)
qed

text \<open>
  Claim C7. On a network that is none of mainnet, rinkeby and private (after the default),
  \<^verbatim>\<open>getBalance\<close> throws and has issued no ledger query. On a supported network, for a
  request that has the extension: without a payment address and without a refund address the
  balance is 0 with no events and no query is issued; without a payment address the balance
  is 0 minus the refunds, the events are the refunds, and the one query is that for the
  refunds; without a refund address the balance is the payments minus 0, the events are the
  payments, and the one query is that for the payments.
\<close>

theorem getBalance_network_and_absent_addresses:
  "(or_default (currency_network (currency request)) ''mainnet'' \<notin> set supportedNetworks \<longrightarrow>
      result (getBalance ledger request)
        = Inl (PaymentNetworkNotSupported
                 (or_default (currency_network (currency request)) ''mainnet''))
    \<and> queries (getBalance ledger request) = [])
 \<and> (\<forall>net ext. or_default (currency_network (currency request)) ''mainnet'' = net
        \<and> net \<in> set supportedNetworks
        \<and> extensions request PAYMENT_NETWORK_ERC20_ADDRESS_BASED = Some ext \<longrightarrow>
      (\<not> truthy (paymentAddress (state_values ext))
         \<and> \<not> truthy (refundAddress (state_values ext)) \<longrightarrow>
         result (getBalance ledger request) = Inr \<lparr> balance = ''0'', events = [] \<rparr>
       \<and> queries (getBalance ledger request) = [])
    \<and> (\<forall>ra refunds. \<not> truthy (paymentAddress (state_values ext))
         \<and> refundAddress (state_values ext) = Some ra \<and> ra \<noteq> []
         \<and> ledger (currency_value (currency request), ra, REFUND, net) = Inr refunds \<longrightarrow>
         result (getBalance ledger request)
           = Inr \<lparr> balance = toString (0 - sum_list (map (\<lambda>e. bigNumber (amount e)) refunds)),
                   events = sort_key timestamp_or_0 refunds \<rparr>
       \<and> queries (getBalance ledger request)
           = [(currency_value (currency request), ra, REFUND, net)])
    \<and> (\<forall>pa payments. paymentAddress (state_values ext) = Some pa \<and> pa \<noteq> []
         \<and> ledger (currency_value (currency request), pa, PAYMENT, net) = Inr payments
         \<and> \<not> truthy (refundAddress (state_values ext)) \<longrightarrow>
         result (getBalance ledger request)
           = Inr \<lparr> balance = toString (sum_list (map (\<lambda>e. bigNumber (amount e)) payments) - 0),
                   events = sort_key timestamp_or_0 payments \<rparr>
       \<and> queries (getBalance ledger request)
           = [(currency_value (currency request), pa, PAYMENT, net)]))"
proof (intro conjI allI impI; (elim conjE)?)
  assume "or_default (currency_network (currency request)) ''mainnet'' \<notin> set supportedNetworks"
  note u = getBalance_unsupported [OF this]
  show "result (getBalance ledger request)
        = Inl (PaymentNetworkNotSupported
                 (or_default (currency_network (currency request)) ''mainnet''))"
    by (simp add: u)
  show "queries (getBalance ledger request) = []"
    by (simp add: u)
next
  fix net ext
  assume n: "or_default (currency_network (currency request)) ''mainnet'' = net"
    "net \<in> set supportedNetworks"
    "extensions request PAYMENT_NETWORK_ERC20_ADDRESS_BASED = Some ext"
  {
    assume a: "\<not> truthy (paymentAddress (state_values ext))"
       "\<not> truthy (refundAddress (state_values ext))"
    note g = getBalance_retrieved [OF n retrieve_absent [OF a(1)] retrieve_absent [OF a(2)]]
    show "result (getBalance ledger request) = Inr \<lparr> balance = ''0'', events = [] \<rparr>"
      by (simp add: g bigNumber_or_0_zero toString_0)
    show "queries (getBalance ledger request) = []"
      by (simp add: g)
  }
  {
    fix ra refunds
    assume a: "\<not> truthy (paymentAddress (state_values ext))"
      "refundAddress (state_values ext) = Some ra" "ra \<noteq> []"
      "ledger (currency_value (currency request), ra, REFUND, net) = Inr refunds"
    note g = getBalance_retrieved [OF n retrieve_absent [OF a(1)] retrieve_present [where ledger = ledger, OF a(2,3,4)]]
    show "result (getBalance ledger request)
           = Inr \<lparr> balance = toString (0 - sum_list (map (\<lambda>e. bigNumber (amount e)) refunds)),
                   events = sort_key timestamp_or_0 refunds \<rparr>"
      by (simp add: g bigNumber_or_0_zero bigNumber_or_0_toString)
    show "queries (getBalance ledger request)
           = [(currency_value (currency request), ra, REFUND, net)]"
      by (simp add: g)
  }
  {
    fix pa payments
    assume a: "paymentAddress (state_values ext) = Some pa" "pa \<noteq> []"
      "ledger (currency_value (currency request), pa, PAYMENT, net) = Inr payments"
      "\<not> truthy (refundAddress (state_values ext))"
    note g = getBalance_retrieved [OF n retrieve_present [where ledger = ledger, OF a(1,2,3)] retrieve_absent [OF a(4)]]
    show "result (getBalance ledger request)
           = Inr \<lparr> balance = toString (sum_list (map (\<lambda>e. bigNumber (amount e)) payments) - 0),
                   events = sort_key timestamp_or_0 payments \<rparr>"
      by (simp add: g bigNumber_or_0_zero bigNumber_or_0_toString)
    show "queries (getBalance ledger request)
           = [(currency_value (currency request), pa, PAYMENT, net)]"
      by (simp add: g)
  }
qed

text \<open>A request on kovan; then requests on mainnet with no address, with the refund
  address only and with the payment address only.\<close>

theorem getBalance_network_and_absent_addresses_witness:
  "result (getBalance example_ledger
             (example_erc20_request (Some ''kovan'') (Some example_payee) (Some example_payer)))
     = Inl (PaymentNetworkNotSupported ''kovan'')
 \<and> queries (getBalance example_ledger
             (example_erc20_request (Some ''kovan'') (Some example_payee) (Some example_payer)))
     = []
 \<and> result (getBalance example_ledger (example_erc20_request None None None))
     = Inr \<lparr> balance = ''0'', events = [] \<rparr>
 \<and> queries (getBalance example_ledger (example_erc20_request None None None)) = []
 \<and> result (getBalance example_ledger (example_erc20_request None None (Some example_payer)))
     = Inr \<lparr> balance = ''-30'',
             events = [\<lparr> amount = ''30'', ev_name = REFUND, ev_timestamp = Some 20 \<rparr>] \<rparr>
 \<and> queries (getBalance example_ledger (example_erc20_request None None (Some example_payer)))
     = [(''0x6b175474e89094c44da98b954eedeac495271d0f'', example_payer, REFUND, ''mainnet'')]
 \<and> result (getBalance example_ledger (example_erc20_request None (Some example_payee) None))
     = Inr \<lparr> balance = ''150'',
             events = [\<lparr> amount = ''50'', ev_name = PAYMENT, ev_timestamp = Some 10 \<rparr>,
                       \<lparr> amount = ''100'', ev_name = PAYMENT, ev_timestamp = Some 30 \<rparr>] \<rparr>
 \<and> queries (getBalance example_ledger (example_erc20_request None (Some example_payee) None))
     = [(''0x6b175474e89094c44da98b954eedeac495271d0f'', example_payee, PAYMENT, ''mainnet'')]"
proof -
  let ?kovan = "example_erc20_request (Some ''kovan'') (Some example_payee) (Some example_payer)"
  let ?none = "example_erc20_request None None None"
  let ?refund = "example_erc20_request None None (Some example_payer)"
  let ?payment = "example_erc20_request None (Some example_payee) None"
  have kovan: "or_default (currency_network (currency ?kovan)) ''mainnet'' = ''kovan''"
    "''kovan'' \<notin> set supportedNetworks"
    by (simp_all add: example_erc20_request_def or_default_def supportedNetworks_def)
  have net: "or_default (currency_network (currency (example_erc20_request None pa ra))) ''mainnet''
          = ''mainnet''" for pa ra
    by (simp add: example_erc20_request_def or_default_def)
  have supported: "''mainnet'' \<in> set supportedNetworks"
    by (simp add: supportedNetworks_def)
  have ext: "extensions (example_erc20_request None pa ra) PAYMENT_NETWORK_ERC20_ADDRESS_BASED
          = Some (the (extensions (example_erc20_request None pa ra)
                         PAYMENT_NETWORK_ERC20_ADDRESS_BASED))" for pa ra
    by (simp add: example_erc20_request_def)
  have addresses:
    "paymentAddress (state_values (the (extensions (example_erc20_request None pa ra)
        PAYMENT_NETWORK_ERC20_ADDRESS_BASED))) = pa"
    "refundAddress (state_values (the (extensions (example_erc20_request None pa ra)
        PAYMENT_NETWORK_ERC20_ADDRESS_BASED))) = ra" for pa ra
    by (simp_all add: example_erc20_request_def)
  have nonempty: "example_payee \<noteq> []" "example_payer \<noteq> []"
    by (simp_all add: example_payee_def example_payer_def)
  have token: "currency_value (currency (example_erc20_request None pa ra))
          = ''0x6b175474e89094c44da98b954eedeac495271d0f''" for pa ra
    by (simp add: example_erc20_request_def)
  note c7 = getBalance_network_and_absent_addresses [where ledger = example_ledger]
  have a: "result (getBalance example_ledger ?kovan) = Inl (PaymentNetworkNotSupported ''kovan'')
         \<and> queries (getBalance example_ledger ?kovan) = []"
    using c7 [of ?kovan, THEN conjunct1] kovan by simp
  note rest = c7 [THEN conjunct2, THEN spec, THEN spec, THEN mp, OF conjI [OF net conjI [OF supported ext]]]
  have b: "result (getBalance example_ledger ?none) = Inr \<lparr> balance = ''0'', events = [] \<rparr>
         \<and> queries (getBalance example_ledger ?none) = []"
    using rest [of None None, THEN conjunct1] by (simp add: addresses truthy_def)
  have c: "result (getBalance example_ledger ?refund)
     = Inr \<lparr> balance = ''-30'',
             events = [\<lparr> amount = ''30'', ev_name = REFUND, ev_timestamp = Some 20 \<rparr>] \<rparr>
    \<and> queries (getBalance example_ledger ?refund)
     = [(''0x6b175474e89094c44da98b954eedeac495271d0f'', example_payer, REFUND, ''mainnet'')]"
    using rest [of None "Some example_payer", THEN conjunct2, THEN conjunct1, THEN spec, THEN spec,
        of example_payer] example_ledger_refunds [of None None "Some example_payer"] nonempty
    by (simp add: addresses truthy_def token example_amounts toString_minus_30)
  have d: "result (getBalance example_ledger ?payment)
     = Inr \<lparr> balance = ''150'',
             events = [\<lparr> amount = ''50'', ev_name = PAYMENT, ev_timestamp = Some 10 \<rparr>,
                       \<lparr> amount = ''100'', ev_name = PAYMENT, ev_timestamp = Some 30 \<rparr>] \<rparr>
    \<and> queries (getBalance example_ledger ?payment)
     = [(''0x6b175474e89094c44da98b954eedeac495271d0f'', example_payee, PAYMENT, ''mainnet'')]"
    using rest [of "Some example_payee" None, THEN conjunct2, THEN conjunct2, THEN spec, THEN spec,
        of example_payee] example_ledger_payments [of None "Some example_payee" None] nonempty
    by (simp add: addresses truthy_def token example_amounts toString_150 timestamp_or_0_def)
  from a b c d show ?thesis
    by blast
qed

text \<open>
  Claim C8, amended. \<^verbatim>\<open>getBalance\<close> leaves the request as it was when the request has a
  network; when the network is missing or empty, the request has
  \<^verbatim>\<open>currency.network = 'mainnet'\<close> after the call. Nothing else of the request changes:
  the extensions, the currency type and the currency value are as before.
\<close>

theorem getBalance_request_after:
  "(truthy (currency_network (currency request)) \<longrightarrow>
      request_after (getBalance ledger request) = request)
 \<and> (\<not> truthy (currency_network (currency request)) \<longrightarrow>
      request_after (getBalance ledger request)
        = request\<lparr> currency := (currency request)\<lparr> currency_network := Some ''mainnet'' \<rparr> \<rparr>)
 \<and> extensions (request_after (getBalance ledger request)) = extensions request
 \<and> currency_type (currency (request_after (getBalance ledger request)))
      = currency_type (currency request)
 \<and> currency_value (currency (request_after (getBalance ledger request)))
      = currency_value (currency request)"
  by (simp add: request_after_getBalance default_network_def)

text \<open>A request on rinkeby is unchanged; a request without a network is on mainnet after
  the call.\<close>

theorem getBalance_request_after_witness:
  "request_after (getBalance example_ledger
      (example_erc20_request (Some ''rinkeby'') (Some example_payee) (Some example_payer)))
     = example_erc20_request (Some ''rinkeby'') (Some example_payee) (Some example_payer)
 \<and> request_after (getBalance example_ledger
      (example_erc20_request None (Some example_payee) (Some example_payer)))
     = example_erc20_request (Some ''mainnet'') (Some example_payee) (Some example_payer)"
  using
    getBalance_request_after [of "example_erc20_request (Some ''rinkeby'') (Some example_payee) (Some example_payer)"
      example_ledger, THEN conjunct1]
    getBalance_request_after [of "example_erc20_request None (Some example_payee) (Some example_payer)"
      example_ledger, THEN conjunct2, THEN conjunct1]
  by (simp add: example_erc20_request_def truthy_def)

text \<open>The claim as it is written fails for a request without a network: before the call
  its network is missing, after the call it is \<^verbatim>\<open>mainnet\<close>.\<close>

theorem getBalance_request_after_counterexample:
  "currency_network (currency
      (example_erc20_request None (Some example_payee) (Some example_payer))) = None
 \<and> currency_network (currency (request_after (getBalance example_ledger
      (example_erc20_request None (Some example_payee) (Some example_payer)))))
     = Some ''mainnet''
 \<and> request_after (getBalance example_ledger
      (example_erc20_request None (Some example_payee) (Some example_payer)))
     \<noteq> example_erc20_request None (Some example_payee) (Some example_payer)"
proof -
  let ?request = "example_erc20_request None (Some example_payee) (Some example_payer)"
  have before: "currency_network (currency ?request) = None"
    by (simp add: example_erc20_request_def)
  have after: "currency_network (currency (request_after (getBalance example_ledger ?request)))
      = Some ''mainnet''"
    by (simp add: request_after_getBalance default_network_def example_erc20_request_def
          truthy_def)
  from before after have "request_after (getBalance example_ledger ?request) \<noteq> ?request"
    by auto
  with before after show ?thesis
    by blast
qed

section \<open>Properties of the aggregator map\<close>

lemma fmdom_empty_iff: "fmdom m = {||} \<longleftrightarrow> m = fmempty"
  by (metis fmdom_empty fmrestrict_fset_dom fmrestrict_fset_null)

lemma reducer_delete:
  "arg_aggregator args = zero_address \<Longrightarrow>
   reducer aggregators args =
     (case fmlookup aggregators (arg_input args) of
        None \<Rightarrow> aggregators
      | Some outputs \<Rightarrow>
          if fmdrop (arg_output args) outputs = fmempty
          then fmdrop (arg_input args) aggregators
          else fmupd (arg_input args) (fmdrop (arg_output args) outputs) aggregators)"
  unfolding reducer_def fmdom_empty_iff Let_def
  by (simp add: fmdrop_fmupd_same split: option.splits)

lemma reducer_upsert:
  "arg_aggregator args \<noteq> zero_address \<Longrightarrow>
   reducer aggregators args =
     fmupd (arg_input args)
       (fmupd (arg_output args) (arg_aggregator args)
          (case fmlookup aggregators (arg_input args) of
             None \<Rightarrow> fmempty
           | Some outputs \<Rightarrow> outputs))
       aggregators"
  by (auto simp: reducer_def split: option.splits)

lemma edge_delete_same:
  "arg_aggregator args = zero_address \<Longrightarrow>
   edge (reducer aggregators args) (arg_input args) (arg_output args) = None"
  by (auto simp: reducer_delete edge_def split: option.splits)

lemma fmdrop_empty_lookup:
  "fmdrop k m = fmempty \<Longrightarrow> k' \<noteq> k \<Longrightarrow> fmlookup m k' = None"
  by (metis fmempty_lookup fmlookup_drop)

lemma edge_delete_other:
  "arg_aggregator args = zero_address \<Longrightarrow> (i, out) \<noteq> (arg_input args, arg_output args) \<Longrightarrow>
   edge (reducer aggregators args) i out = edge aggregators i out"
  by (auto simp: reducer_delete edge_def fmdrop_empty_lookup split: option.splits)

lemma no_empty_after_delete:
  "arg_aggregator args = zero_address \<Longrightarrow>
   fmlookup (reducer aggregators args) (arg_input args) \<noteq> Some fmempty"
  by (auto simp: reducer_delete split: option.splits)

lemma key_pruned:
  "arg_aggregator args = zero_address \<Longrightarrow>
   fmlookup aggregators (arg_input args) = Some outputs \<Longrightarrow>
   fmdrop (arg_output args) outputs = fmempty \<Longrightarrow>
   fmlookup (reducer aggregators args) (arg_input args) = None"
  by (simp add: reducer_delete)

lemma edge_upsert:
  "arg_aggregator args \<noteq> zero_address \<Longrightarrow>
   edge (reducer aggregators args) i out =
     (if (i, out) = (arg_input args, arg_output args) then Some (arg_aggregator args)
      else edge aggregators i out)"
  by (auto simp: reducer_upsert edge_def split: option.splits)

lemma fmdrop_fmupd_restore:
  "fmlookup m k = Some v \<Longrightarrow> fmupd k v (fmdrop k m) = m"
  by (rule fmap_ext) auto

lemma fmupd_same: "fmlookup m k = Some v \<Longrightarrow> fmupd k v m = m"
  by (rule fmap_ext) auto

lemma remove_then_add:
  assumes "edge aggregators i out = Some a" and "a \<noteq> zero_address"
  shows "reducer
           (reducer aggregators
              \<lparr> arg_input = i, arg_output = out, arg_aggregator = zero_address \<rparr>)
           \<lparr> arg_input = i, arg_output = out, arg_aggregator = a \<rparr> = aggregators"
proof -
  from assms(1) obtain outputs where found:
    "fmlookup aggregators i = Some outputs" "fmlookup outputs out = Some a"
    by (auto simp: edge_def split: option.splits)
  show ?thesis
  proof (cases "fmdrop out outputs = fmempty")
    case True
    then have "fmupd out a fmempty = outputs"
      using fmdrop_fmupd_restore [OF found(2)] by simp
    with found True assms(2) show ?thesis
      by (simp add: reducer_delete reducer_upsert fmdrop_fmupd_restore)
  next
    case False
    with found assms(2) show ?thesis
      by (simp add: reducer_delete reducer_upsert fmdrop_fmupd_restore fmupd_same)
  qed
qed

lemma aggregatorsMaps_append:
  "aggregatorsMaps (logs @ later) = foldl reducer (aggregatorsMaps logs) later"
  by (simp add: aggregatorsMaps_def)

text \<open>The map built from a log stream never holds an input with an empty map of outputs.\<close>

lemma aggregatorsMaps_no_empty_outputs:
  "fmlookup (aggregatorsMaps logs) i \<noteq> Some fmempty"
proof (induction logs rule: rev_induct)
  case Nil
  then show ?case
    by (simp add: aggregatorsMaps_def)
next
  case (snoc args logs)
  show ?case
  proof (cases "arg_aggregator args = zero_address")
    case True
    with snoc show ?thesis
      by (auto simp: aggregatorsMaps_append reducer_delete split: option.splits)
  next
    case False
    with snoc show ?thesis
      by (auto simp: aggregatorsMaps_append reducer_upsert split: option.splits)
  qed
qed

lemma example_edges:
  "edge (aggregatorsMaps example_logs) ''0xEUR'' ''0xUSD'' = Some ''0xAggregator1''"
  "fmlookup (aggregatorsMaps example_logs) ''0xEUR''
     = Some (fmupd ''0xUSD'' ''0xAggregator1'' fmempty)"
  "''0xAggregator1'' \<noteq> zero_address"
  "''0xAggregator3'' \<noteq> zero_address"
  by (simp_all add: edge_def aggregatorsMaps_def example_logs_def reducer_def zero_address_def)

text \<open>
  Claim C5. The map \<^verbatim>\<open>getAggregators\<close> rebuilds is a function of the log stream alone: equal
  streams give equal maps, and folding a stream in one go gives the map that continuing
  from the map of a prefix gives. An event with the zero address as aggregator removes its
  edge, leaves every other edge as it was, never leaves the input with an empty map of
  outputs, and removes the input key when the edge was its last. Any other event sets its
  edge to its aggregator and leaves every other edge as it was. Removing an edge of the map
  and then adding it again with the aggregator it had gives the map back.
\<close>

theorem aggregatorsMaps_rebuild:
  "(\<forall>logs'. logs' = logs \<longrightarrow> aggregatorsMaps logs' = aggregatorsMaps logs)
 \<and> aggregatorsMaps (logs @ later) = foldl reducer (aggregatorsMaps logs) later
 \<and> (arg_aggregator args = zero_address \<longrightarrow>
      edge (reducer aggregators args) (arg_input args) (arg_output args) = None
    \<and> (\<forall>i out. (i, out) \<noteq> (arg_input args, arg_output args) \<longrightarrow>
          edge (reducer aggregators args) i out = edge aggregators i out)
    \<and> fmlookup (reducer aggregators args) (arg_input args) \<noteq> Some fmempty
    \<and> (\<forall>outputs. fmlookup aggregators (arg_input args) = Some outputs
          \<and> fmdrop (arg_output args) outputs = fmempty \<longrightarrow>
          fmlookup (reducer aggregators args) (arg_input args) = None))
 \<and> (arg_aggregator args \<noteq> zero_address \<longrightarrow>
      edge (reducer aggregators args) (arg_input args) (arg_output args)
        = Some (arg_aggregator args)
    \<and> (\<forall>i out. (i, out) \<noteq> (arg_input args, arg_output args) \<longrightarrow>
          edge (reducer aggregators args) i out = edge aggregators i out))
 \<and> (\<forall>i out a. edge aggregators i out = Some a \<and> a \<noteq> zero_address \<longrightarrow>
      reducer
        (reducer aggregators
           \<lparr> arg_input = i, arg_output = out, arg_aggregator = zero_address \<rparr>)
        \<lparr> arg_input = i, arg_output = out, arg_aggregator = a \<rparr> = aggregators)"
proof (intro conjI allI impI)
  show "aggregatorsMaps (logs @ later) = foldl reducer (aggregatorsMaps logs) later"
    by (rule aggregatorsMaps_append)
next
  fix i out a
  assume "edge aggregators i out = Some a \<and> a \<noteq> zero_address"
  then show "reducer
        (reducer aggregators
           \<lparr> arg_input = i, arg_output = out, arg_aggregator = zero_address \<rparr>)
        \<lparr> arg_input = i, arg_output = out, arg_aggregator = a \<rparr> = aggregators"
    by (simp add: remove_then_add)
qed (auto simp: edge_delete_same edge_delete_other no_empty_after_delete key_pruned
       edge_upsert)

text \<open>On the example stream: removing the edge from EUR to USD and adding it again gives the
  same map; after the removal alone EUR is no key; a new event adds the edge from EUR to
  DAI.\<close>

theorem aggregatorsMaps_rebuild_witness:
  "aggregatorsMaps
     (example_logs @
        [\<lparr> arg_input = ''0xEUR'', arg_output = ''0xUSD'', arg_aggregator = zero_address \<rparr>,
         \<lparr> arg_input = ''0xEUR'', arg_output = ''0xUSD'', arg_aggregator = ''0xAggregator1'' \<rparr>])
     = aggregatorsMaps example_logs
 \<and> fmlookup
      (aggregatorsMaps
         (example_logs @
            [\<lparr> arg_input = ''0xEUR'', arg_output = ''0xUSD'', arg_aggregator = zero_address \<rparr>]))
      ''0xEUR'' = None
 \<and> edge
      (aggregatorsMaps
         (example_logs @
            [\<lparr> arg_input = ''0xEUR'', arg_output = ''0xDAI'',
               arg_aggregator = ''0xAggregator3'' \<rparr>]))
      ''0xEUR'' ''0xDAI'' = Some ''0xAggregator3''"
proof -
  let ?m = "aggregatorsMaps example_logs"
  let ?del = "\<lparr> arg_input = ''0xEUR'', arg_output = ''0xUSD'', arg_aggregator = zero_address \<rparr>"
  let ?add = "\<lparr> arg_input = ''0xEUR'', arg_output = ''0xUSD'',
                arg_aggregator = ''0xAggregator1'' \<rparr>"
  let ?new = "\<lparr> arg_input = ''0xEUR'', arg_output = ''0xDAI'',
                arg_aggregator = ''0xAggregator3'' \<rparr>"
  note rebuild = aggregatorsMaps_rebuild [where aggregators = ?m]
  have restored: "reducer (reducer ?m ?del) ?add = ?m"
    using rebuild [THEN conjunct2, THEN conjunct2, THEN conjunct2, THEN conjunct2, THEN spec,
        THEN spec, THEN spec, of "''0xEUR''" "''0xUSD''" "''0xAggregator1''"] example_edges(1,3)
    by simp
  have pruned: "fmlookup (reducer ?m ?del) ''0xEUR'' = None"
    using rebuild [where args = ?del, THEN conjunct2, THEN conjunct2, THEN conjunct1, THEN mp,
        THEN conjunct2, THEN conjunct2, THEN conjunct2, THEN spec,
        of "fmupd ''0xUSD'' ''0xAggregator1'' fmempty"] example_edges(2)
    by (simp add: fmdrop_fmupd_same)
  have upsert: "edge (reducer ?m ?new) ''0xEUR'' ''0xDAI'' = Some ''0xAggregator3''"
    using rebuild [where args = ?new, THEN conjunct2, THEN conjunct2, THEN conjunct2,
        THEN conjunct1, THEN mp, THEN conjunct1] example_edges(4)
    by simp
  from restored pruned upsert show ?thesis
    by (simp add: aggregatorsMaps_append)
qed

end
